theory Spec2Isabelle
  imports Complex_Main
begin

section \<open>Tensors\<close>

text \<open>
  A tensor of shape \<open>[B, C, T]\<close> (batch, channels, time) is a list of \<open>B\<close> batch elements,
  each a list of \<open>C\<close> channel rows, each a list of \<open>T\<close> numbers. The numbers are real
  numbers: the arithmetic of the source is read as exact arithmetic, so rounding,
  infinities and NaN of the floating-point types are not part of this model.

  The operations below are the PyTorch operations \<^verbatim>\<open>ResidualCouplingBlock.py\<close> calls, at the
  shapes its docstrings give: \<open>x\<close> is \<open>[B, C, T]\<close>, \<open>x_mask\<close> is \<open>[B, 1, T]\<close>. On other
  shapes PyTorch raises or broadcasts differently; every theorem below speaks about the
  documented shapes only, through \<open>has_shape\<close>.
\<close>

type_synonym tensor = "real list list list"

definition has_shape :: "nat \<Rightarrow> nat \<Rightarrow> nat \<Rightarrow> tensor \<Rightarrow> bool" where
  "has_shape B C T x \<longleftrightarrow>
     length x = B \<and> list_all (\<lambda>xb. length xb = C \<and> list_all (\<lambda>r. length r = T) xb) x"

text \<open>Elementwise unary and binary operations on tensors of one shape.\<close>

definition tmap :: "(real \<Rightarrow> real) \<Rightarrow> tensor \<Rightarrow> tensor" where
  "tmap f x = map (map (map f)) x"

definition tmap2 :: "(real \<Rightarrow> real \<Rightarrow> real) \<Rightarrow> tensor \<Rightarrow> tensor \<Rightarrow> tensor" where
  "tmap2 f x y = map2 (map2 (map2 f)) x y"

definition torch_exp :: "tensor \<Rightarrow> tensor" where
  "torch_exp x = tmap exp x"

definition torch_neg :: "tensor \<Rightarrow> tensor" where
  "torch_neg x = tmap uminus x"

definition torch_zeros_like :: "tensor \<Rightarrow> tensor" where
  "torch_zeros_like x = tmap (\<lambda>_. 0) x"

definition torch_add :: "tensor \<Rightarrow> tensor \<Rightarrow> tensor" where
  "torch_add x y = tmap2 (+) x y"

definition torch_sub :: "tensor \<Rightarrow> tensor \<Rightarrow> tensor" where
  "torch_sub x y = tmap2 (-) x y"

definition torch_mul :: "tensor \<Rightarrow> tensor \<Rightarrow> tensor" where
  "torch_mul x y = tmap2 (*) x y"

text \<open>
  \<^verbatim>\<open>x * x_mask\<close> with \<open>x\<close> of shape \<open>[B, C, T]\<close> and \<open>x_mask\<close> of shape \<open>[B, 1, T]\<close>: the single
  mask row of a batch element is broadcast along the channel axis.
\<close>

definition mul_mask :: "tensor \<Rightarrow> tensor \<Rightarrow> tensor" where
  "mul_mask x x_mask =
     map2 (\<lambda>xb mb. case mb of [mr] \<Rightarrow> map (\<lambda>xr. map2 (*) xr mr) xb | _ \<Rightarrow> []) x x_mask"

text \<open>\<^verbatim>\<open>torch.split(x, [h] * 2, 1)\<close>: the first \<open>h\<close> channels and the next \<open>h\<close> channels.\<close>

definition torch_split :: "tensor \<Rightarrow> nat \<Rightarrow> tensor \<times> tensor" where
  "torch_split x h = (map (take h) x, map (\<lambda>xb. take h (drop h xb)) x)"

text \<open>\<^verbatim>\<open>torch.cat([x0, x1], 1)\<close>: concatenation along the channel axis.\<close>

definition torch_cat :: "tensor \<Rightarrow> tensor \<Rightarrow> tensor" where
  "torch_cat x0 x1 = map2 (@) x0 x1"

text \<open>\<^verbatim>\<open>torch.flip(x, [1])\<close>: the channel rows of every batch element in reverse order.\<close>

definition torch_flip :: "tensor \<Rightarrow> tensor" where
  "torch_flip x = map rev x"

text \<open>\<^verbatim>\<open>torch.sum(logs, [1, 2])\<close>: one sum per batch element, over channels and time.\<close>

definition torch_sum :: "tensor \<Rightarrow> real list" where
  "torch_sum x = map (\<lambda>xb. sum_list (map sum_list xb)) x"

text \<open>\<^verbatim>\<open>torch.zeros(n)\<close>.\<close>

definition torch_zeros :: "nat \<Rightarrow> real list" where
  "torch_zeros n = replicate n 0"

section \<open>Convolutions of kernel size one\<close>

text \<open>
  Both \<open>pre\<close> and \<open>post\<close> are \<^verbatim>\<open>nn.Conv1d(c_in, c_out, 1)\<close>. Its weight has shape
  \<open>[c_out, c_in, 1]\<close> (the last axis, of length one, is left out here) and its bias has
  shape \<open>[c_out]\<close>; applied to \<open>[B, c_in, T]\<close> it gives \<open>[B, c_out, T]\<close> with
  \<open>out[b][o][t] = bias[o] + \<Sum>i. weight[o][i] * x[b][i][t]\<close>.
\<close>

record conv1d =
  weight :: "real list list"
  bias :: "real list"

definition conv1d_forward :: "conv1d \<Rightarrow> tensor \<Rightarrow> tensor" where
  "conv1d_forward c x =
     map (\<lambda>xb. map2 (\<lambda>w b. map (\<lambda>col. b + sum_list (map2 (*) w col)) (transpose xb))
                  (weight c) (bias c)) x"

text \<open>\<^verbatim>\<open>weight.data.zero_()\<close> and \<^verbatim>\<open>bias.data.zero_()\<close>: every entry becomes zero.\<close>

definition weight_zero :: "conv1d \<Rightarrow> conv1d" where
  "weight_zero c = c\<lparr>weight := map (map (\<lambda>_. 0)) (weight c)\<rparr>"

definition bias_zero :: "conv1d \<Rightarrow> conv1d" where
  "bias_zero c = c\<lparr>bias := map (\<lambda>_. 0) (bias c)\<rparr>"

text \<open>
  The constructor \<^verbatim>\<open>nn.Conv1d(c_in, c_out, 1)\<close> allocates the two parameter tensors and
  fills them from the random number generator; a negative size is refused by the
  allocation. The generator is a state \<open>'s\<close> with a function \<open>rnd\<close> that draws one number.
\<close>

datatype error = AssertionError string | RuntimeError | WaveNetError

fun draws :: "('s \<Rightarrow> real \<times> 's) \<Rightarrow> nat \<Rightarrow> 's \<Rightarrow> real list \<times> 's" where
  "draws rnd 0 s = ([], s)"
| "draws rnd (Suc n) s =
     (case rnd s of (v, s1) \<Rightarrow> (case draws rnd n s1 of (vs, s2) \<Rightarrow> (v # vs, s2)))"

fun draw_rows :: "('s \<Rightarrow> real \<times> 's) \<Rightarrow> nat \<Rightarrow> nat \<Rightarrow> 's \<Rightarrow> real list list \<times> 's" where
  "draw_rows rnd 0 n s = ([], s)"
| "draw_rows rnd (Suc k) n s =
     (case draws rnd n s of (r, s1) \<Rightarrow> (case draw_rows rnd k n s1 of (rs, s2) \<Rightarrow> (r # rs, s2)))"

definition nn_Conv1d :: "('s \<Rightarrow> real \<times> 's) \<Rightarrow> int \<Rightarrow> int \<Rightarrow> 's \<Rightarrow> error + conv1d \<times> 's" where
  "nn_Conv1d rnd c_in c_out s =
     (if c_in < 0 \<or> c_out < 0 then Inl RuntimeError
      else case draw_rows rnd (nat c_out) (nat c_in) s of (w, s1) \<Rightarrow>
           (case draws rnd (nat c_out) s1 of (b, s2) \<Rightarrow> Inr (\<lparr>weight = w, bias = b\<rparr>, s2)))"

section \<open>The coupling layer\<close>

text \<open>
  \<^verbatim>\<open>WaveNet\<close> is imported by the source and not part of it: the network \<open>enc\<close> is a function
  of the hidden tensor, the mask and the optional conditioning, and its constructor is a
  parameter \<open>WaveNet\<close> of the layer's constructor, which may fail (\<open>None\<close>).
\<close>

type_synonym wavenet = "tensor \<Rightarrow> tensor \<Rightarrow> tensor option \<Rightarrow> tensor"

record layer =
  channels :: int
  hidden_channels :: int
  kernel_size :: int
  dilation_rate :: int
  n_layers :: int
  half_channels :: int
  mean_only :: bool
  pre :: conv1d
  enc :: wavenet
  post :: conv1d

type_synonym 's wavenet_init =
  "int \<Rightarrow> int \<Rightarrow> int \<Rightarrow> int \<Rightarrow> int \<Rightarrow> int \<Rightarrow> 's \<Rightarrow> (wavenet \<times> 's) option"

definition ResidualCouplingLayer_init ::
  "('s \<Rightarrow> real \<times> 's) \<Rightarrow> 's wavenet_init \<Rightarrow>
     int \<Rightarrow> int \<Rightarrow> int \<Rightarrow> int \<Rightarrow> int \<Rightarrow> int \<Rightarrow> int \<Rightarrow> bool \<Rightarrow> 's \<Rightarrow> error + layer \<times> 's" where
  "ResidualCouplingLayer_init rnd WaveNet channels' hidden_channels' kernel_size'
       dilation_rate' n_layers' p_dropout gin_channels' mean_only' s =
     (if channels' mod 2 \<noteq> 0 then Inl (AssertionError ''channels should be divisible by 2'')
      else
        let half = channels' div 2 in
        case nn_Conv1d rnd half hidden_channels' s of
          Inl e \<Rightarrow> Inl e
        | Inr (pre', s1) \<Rightarrow>
           (case WaveNet hidden_channels' kernel_size' dilation_rate' n_layers' p_dropout
                   gin_channels' s1 of
              None \<Rightarrow> Inl WaveNetError
            | Some (enc', s2) \<Rightarrow>
               (case nn_Conv1d rnd hidden_channels'
                       (half * (2 - (if mean_only' then 1 else 0))) s2 of
                  Inl e \<Rightarrow> Inl e
                | Inr (post', s3) \<Rightarrow>
                    Inr (\<lparr>channels = channels', hidden_channels = hidden_channels',
                          kernel_size = kernel_size', dilation_rate = dilation_rate',
                          n_layers = n_layers', half_channels = half,
                          mean_only = mean_only', pre = pre', enc = enc',
                          post = bias_zero (weight_zero post')\<rparr>, s3))))"

text \<open>
  The result of a call of a flow: the pair \<open>(x, logdet)\<close> when \<open>reverse\<close> is false, the
  tensor alone when it is true.
\<close>

datatype flow_result = Fwd tensor "real list" | Rev tensor

fun out_tensor :: "flow_result \<Rightarrow> tensor" where
  "out_tensor (Fwd x logdet) = x"
| "out_tensor (Rev x) = x"

text \<open>Lines 149 to 158 of the source: the split of \<open>x\<close> and the statistics \<open>m\<close>, \<open>logs\<close>.\<close>

definition coupling_stats :: "layer \<Rightarrow> tensor \<Rightarrow> tensor \<Rightarrow> tensor option \<Rightarrow> tensor \<times> tensor" where
  "coupling_stats l x x_mask g =
     (case torch_split x (nat (half_channels l)) of (x0, x1) \<Rightarrow>
      let h = mul_mask (conv1d_forward (pre l) x0) x_mask;
          h = enc l h x_mask g;
          stats = mul_mask (conv1d_forward (post l) h) x_mask
      in if \<not> mean_only l then torch_split stats (nat (half_channels l))
         else (stats, torch_zeros_like stats))"

text \<open>Lines 149 and 160 to 168: the affine map of the second half.\<close>

definition ResidualCouplingLayer_forward ::
  "layer \<Rightarrow> tensor \<Rightarrow> tensor \<Rightarrow> tensor option \<Rightarrow> bool \<Rightarrow> flow_result" where
  "ResidualCouplingLayer_forward l x x_mask g reverse =
     (case torch_split x (nat (half_channels l)) of (x0, x1) \<Rightarrow>
      case coupling_stats l x x_mask g of (m, logs) \<Rightarrow>
        if \<not> reverse then
          let x1 = torch_add m (mul_mask (torch_mul x1 (torch_exp logs)) x_mask);
              x = torch_cat x0 x1;
              logdet = torch_sum logs
          in Fwd x logdet
        else
          let x1 = mul_mask (torch_mul (torch_sub x1 m) (torch_exp (torch_neg logs))) x_mask;
              x = torch_cat x0 x1
          in Rev x)"

section \<open>The flip\<close>

definition Flip_forward :: "tensor \<Rightarrow> bool \<Rightarrow> flow_result" where
  "Flip_forward x reverse =
     (let x = torch_flip x in
      if \<not> reverse then
        let logdet = torch_zeros (length x) in Fwd x logdet
      else Rev x)"

section \<open>The block\<close>

datatype flow = ResidualCouplingLayer layer | Flip

record block =
  channels :: int
  hidden_channels :: int
  kernel_size :: int
  dilation_rate :: int
  n_layers :: int
  n_flows :: int
  gin_channels :: int
  flows :: "flow list"

text \<open>
  The loop of the constructor: \<open>k\<close> more rounds, each appending a new coupling layer
  (with \<^verbatim>\<open>mean_only=True\<close> and the default \<^verbatim>\<open>p_dropout=0\<close>) and a flip to the list.
\<close>

fun append_flows ::
  "('s \<Rightarrow> real \<times> 's) \<Rightarrow> 's wavenet_init \<Rightarrow> int \<Rightarrow> int \<Rightarrow> int \<Rightarrow> int \<Rightarrow> int \<Rightarrow> int \<Rightarrow>
     nat \<Rightarrow> flow list \<Rightarrow> 's \<Rightarrow> error + flow list \<times> 's" where
  "append_flows rnd WaveNet c hc ks dr nl gin 0 fs s = Inr (fs, s)"
| "append_flows rnd WaveNet c hc ks dr nl gin (Suc k) fs s =
     (case ResidualCouplingLayer_init rnd WaveNet c hc ks dr nl 0 gin True s of
        Inl e \<Rightarrow> Inl e
      | Inr (l, s1) \<Rightarrow>
          append_flows rnd WaveNet c hc ks dr nl gin k (fs @ [ResidualCouplingLayer l] @ [Flip]) s1)"

definition ResidualCouplingBlock_init ::
  "('s \<Rightarrow> real \<times> 's) \<Rightarrow> 's wavenet_init \<Rightarrow> int \<Rightarrow> int \<Rightarrow> int \<Rightarrow> int \<Rightarrow> int \<Rightarrow> int \<Rightarrow> int \<Rightarrow>
     's \<Rightarrow> error + block \<times> 's" where
  "ResidualCouplingBlock_init rnd WaveNet channels' hidden_channels' kernel_size'
       dilation_rate' n_layers' n_flows' gin_channels' s =
     (case append_flows rnd WaveNet channels' hidden_channels' kernel_size' dilation_rate'
             n_layers' gin_channels' (nat n_flows') [] s of
        Inl e \<Rightarrow> Inl e
      | Inr (fs, s1) \<Rightarrow>
          Inr (\<lparr>channels = channels', hidden_channels = hidden_channels',
                kernel_size = kernel_size', dilation_rate = dilation_rate',
                n_layers = n_layers', n_flows = n_flows', gin_channels = gin_channels',
                flows = fs\<rparr>, s1))"

text \<open>\<^verbatim>\<open>flow(x, x_mask, g=g, reverse=reverse)\<close> for a member of the module list.\<close>

fun flow_call :: "flow \<Rightarrow> tensor \<Rightarrow> tensor \<Rightarrow> tensor option \<Rightarrow> bool \<Rightarrow> flow_result" where
  "flow_call (ResidualCouplingLayer l) x x_mask g reverse =
     ResidualCouplingLayer_forward l x x_mask g reverse"
| "flow_call Flip x x_mask g reverse = Flip_forward x reverse"

text \<open>
  The two loops of \<^verbatim>\<open>ResidualCouplingBlock.forward\<close>: each round replaces \<open>x\<close> by the
  tensor the flow returns (the first component of the pair when \<open>reverse\<close> is false).
\<close>

fun run_flows :: "flow list \<Rightarrow> tensor \<Rightarrow> tensor \<Rightarrow> tensor option \<Rightarrow> bool \<Rightarrow> tensor" where
  "run_flows [] x x_mask g reverse = x"
| "run_flows (f # fs) x x_mask g reverse =
     run_flows fs (out_tensor (flow_call f x x_mask g reverse)) x_mask g reverse"

definition ResidualCouplingBlock_forward ::
  "block \<Rightarrow> tensor \<Rightarrow> tensor \<Rightarrow> tensor option \<Rightarrow> bool \<Rightarrow> tensor" where
  "ResidualCouplingBlock_forward b x x_mask g reverse =
     (if \<not> reverse then run_flows (flows b) x x_mask g reverse
      else run_flows (rev (flows b)) x x_mask g reverse)"


section \<open>Well-formed layers, blocks and inputs\<close>

text \<open>
  The shapes the constructor gives the parameters of a convolution, the contract of the
  injected network (it keeps the shape of the hidden tensor), and the layers whose
  parameters have the shapes their configuration says. A well-formed block is one whose
  coupling layers are well formed and have the block's number of channels: what the
  constructor builds, whatever values training gives the parameters.
\<close>

definition conv_shape :: "nat \<Rightarrow> nat \<Rightarrow> conv1d \<Rightarrow> bool" where
  "conv_shape c_in c_out c \<longleftrightarrow>
     length (weight c) = c_out \<and> list_all (\<lambda>w. length w = c_in) (weight c) \<and>
     length (bias c) = c_out"

definition shape_preserving :: "nat \<Rightarrow> wavenet \<Rightarrow> bool" where
  "shape_preserving H e \<longleftrightarrow>
     (\<forall>h k g B T. has_shape B H T h \<longrightarrow> has_shape B 1 T k \<longrightarrow> has_shape B H T (e h k g))"

definition wf_layer :: "layer \<Rightarrow> bool" where
  "wf_layer l \<longleftrightarrow>
     0 < half_channels l \<and> layer.channels l = 2 * half_channels l \<and>
     0 < layer.hidden_channels l \<and>
     conv_shape (nat (half_channels l)) (nat (layer.hidden_channels l)) (pre l) \<and>
     conv_shape (nat (layer.hidden_channels l))
       (nat (half_channels l * (2 - (if mean_only l then 1 else 0)))) (post l) \<and>
     shape_preserving (nat (layer.hidden_channels l)) (enc l)"

definition wf_flow :: "int \<Rightarrow> flow \<Rightarrow> bool" where
  "wf_flow C f = (case f of ResidualCouplingLayer l \<Rightarrow> wf_layer l \<and> layer.channels l = C | Flip \<Rightarrow> True)"

definition wf_block :: "block \<Rightarrow> bool" where
  "wf_block b \<longleftrightarrow> list_all (wf_flow (block.channels b)) (flows b)"

text \<open>A mask with values in \<open>{0, 1}\<close>.\<close>

definition binary_mask :: "tensor \<Rightarrow> bool" where
  "binary_mask k \<longleftrightarrow> list_all (list_all (list_all (\<lambda>v. v = 0 \<or> v = 1))) k"

section \<open>The forward direction as the specification words it\<close>

text \<open>
  Step 4 of the specification's coupling layer: \<open>x1' = (m + x1 * exp(logs)) * mask\<close>, the
  output \<open>concat(x0, x1')\<close> and the log-determinant \<open>sum(logs)\<close>, with \<open>m\<close> and \<open>logs\<close> as
  steps 1 to 3 compute them. It is compared below with \<open>ResidualCouplingLayer_forward\<close>,
  which multiplies \<open>x1 * exp(logs)\<close> by the mask before it adds \<open>m\<close>.
\<close>

definition spec_coupling_forward :: "layer \<Rightarrow> tensor \<Rightarrow> tensor \<Rightarrow> tensor option \<Rightarrow> flow_result" where
  "spec_coupling_forward l x x_mask g =
     (case torch_split x (nat (half_channels l)) of (x0, x1) \<Rightarrow>
      case coupling_stats l x x_mask g of (m, logs) \<Rightarrow>
        Fwd (torch_cat x0 (mul_mask (torch_add m (torch_mul x1 (torch_exp logs))) x_mask))
            (torch_sum logs))"

section \<open>Small instances\<close>

text \<open>
  Layers with one channel per half and one hidden channel, whose network \<open>enc\<close> is the
  identity: the first is \<open>mean_only\<close>, the second also learns the log-scale. The input has
  two time steps.
\<close>

definition demo_layer :: layer where
  "demo_layer = \<lparr>layer.channels = 2, hidden_channels = 1, kernel_size = 3, dilation_rate = 1,
     n_layers = 2, half_channels = 1, mean_only = True,
     pre = \<lparr>weight = [[1]], bias = [0]\<rparr>, enc = (\<lambda>h k g. h),
     post = \<lparr>weight = [[2]], bias = [1]\<rparr>\<rparr>"

definition demo_scale_layer :: layer where
  "demo_scale_layer = \<lparr>layer.channels = 2, hidden_channels = 1, kernel_size = 3, dilation_rate = 1,
     n_layers = 2, half_channels = 1, mean_only = False,
     pre = \<lparr>weight = [[1]], bias = [0]\<rparr>, enc = (\<lambda>h k g. h),
     post = \<lparr>weight = [[2], [1]], bias = [1, 0]\<rparr>\<rparr>"

definition demo_x :: tensor where
  "demo_x = [[[1, 2], [3, 4]]]"

text \<open>
  A mask that masks the second time step out, and a mask that attenuates both time steps
  by one half.
\<close>

definition demo_mask :: tensor where
  "demo_mask = [[[1, 0]]]"

definition demo_half_mask :: tensor where
  "demo_half_mask = [[[1 / 2, 1 / 2]]]"

text \<open>
  A generator that counts up from its state, and a \<open>WaveNet\<close> constructor that always
  succeeds with the identity network.
\<close>

definition demo_rnd :: "nat \<Rightarrow> real \<times> nat" where
  "demo_rnd s = (real s + 1, Suc s)"

definition demo_WaveNet :: "nat wavenet_init" where
  "demo_WaveNet hc ks dr nl pd gin s = Some (\<lambda>h k g. h, s)"

text \<open>The layer the constructor returns for two channels and one hidden channel.\<close>

definition demo_init_layer :: layer where
  "demo_init_layer = \<lparr>layer.channels = 2, hidden_channels = 1, kernel_size = 3, dilation_rate = 1,
     n_layers = 2, half_channels = 1, mean_only = True,
     pre = \<lparr>weight = [[1]], bias = [2]\<rparr>, enc = (\<lambda>h k g. h),
     post = \<lparr>weight = [[0]], bias = [0]\<rparr>\<rparr>"

text \<open>The block the constructor returns for two channels, one hidden channel and two flows.\<close>

definition demo_block :: block where
  "demo_block = \<lparr>channels = 2, hidden_channels = 1, kernel_size = 3, dilation_rate = 1,
     n_layers = 2, n_flows = 2, gin_channels = 0,
     flows = [ResidualCouplingLayer demo_init_layer, Flip,
              ResidualCouplingLayer (demo_init_layer\<lparr>pre := \<lparr>weight = [[5]], bias = [6]\<rparr>\<rparr>), Flip]\<rparr>"

section \<open>Shapes and entries of the tensor operations\<close>

lemma has_shape_iff:
  "has_shape B C T x \<longleftrightarrow>
     length x = B \<and> (\<forall>b<B. length (x ! b) = C \<and> (\<forall>c<C. length (x ! b ! c) = T))"
  by (auto simp: has_shape_def list_all_length)

lemma tensor_eqI:
  assumes x: "has_shape B C T x" and y: "has_shape B C T y"
    and eq: "\<And>b c t. b < B \<Longrightarrow> c < C \<Longrightarrow> t < T \<Longrightarrow> x ! b ! c ! t = y ! b ! c ! t"
  shows "x = y"
proof (rule nth_equalityI)
  show "length x = length y" using x y by (simp add: has_shape_iff)
next
  fix b assume b: "b < length x"
  then have bB: "b < B" using x by (simp add: has_shape_iff)
  show "x ! b = y ! b"
  proof (rule nth_equalityI)
    show "length (x ! b) = length (y ! b)" using x y bB by (simp add: has_shape_iff)
  next
    fix c assume "c < length (x ! b)"
    then have cC: "c < C" using x bB by (simp add: has_shape_iff)
    show "x ! b ! c = y ! b ! c"
    proof (rule nth_equalityI)
      show "length (x ! b ! c) = length (y ! b ! c)" using x y bB cC by (simp add: has_shape_iff)
    next
      fix t assume "t < length (x ! b ! c)"
      then have "t < T" using x bB cC by (simp add: has_shape_iff)
      then show "x ! b ! c ! t = y ! b ! c ! t" using eq bB cC by simp
    qed
  qed
qed

lemma has_shape_tmap: "has_shape B C T x \<Longrightarrow> has_shape B C T (tmap f x)"
  by (simp add: has_shape_iff tmap_def)

lemma nth_tmap:
  "has_shape B C T x \<Longrightarrow> b < B \<Longrightarrow> c < C \<Longrightarrow> t < T \<Longrightarrow> tmap f x ! b ! c ! t = f (x ! b ! c ! t)"
  by (simp add: has_shape_iff tmap_def)

lemma has_shape_tmap2:
  "has_shape B C T x \<Longrightarrow> has_shape B C T y \<Longrightarrow> has_shape B C T (tmap2 f x y)"
  by (simp add: has_shape_iff tmap2_def)

lemma nth_tmap2:
  "has_shape B C T x \<Longrightarrow> has_shape B C T y \<Longrightarrow> b < B \<Longrightarrow> c < C \<Longrightarrow> t < T \<Longrightarrow>
     tmap2 f x y ! b ! c ! t = f (x ! b ! c ! t) (y ! b ! c ! t)"
  by (simp add: has_shape_iff tmap2_def)

lemma mask_row:
  "has_shape B (Suc 0) T k \<Longrightarrow> b < B \<Longrightarrow> k ! b = [k ! b ! 0]"
  by (simp add: has_shape_iff length_Suc_conv) (metis nth_Cons_0 length_0_conv length_Suc_conv)

lemma mul_mask_nth_batch:
  assumes "has_shape B C T x" "has_shape B (Suc 0) T k" "b < B"
  shows "mul_mask x k ! b = map (\<lambda>xr. map2 (*) xr (k ! b ! 0)) (x ! b)"
proof -
  have "mul_mask x k ! b = (case k ! b of [mr] \<Rightarrow> map (\<lambda>xr. map2 (*) xr mr) (x ! b) | _ \<Rightarrow> [])"
    using assms by (simp add: mul_mask_def has_shape_iff)
  also have "k ! b = [k ! b ! 0]" using assms(2,3) by (rule mask_row)
  finally show ?thesis by simp
qed

lemma has_shape_mul_mask:
  assumes "has_shape B C T x" "has_shape B (Suc 0) T k"
  shows "has_shape B C T (mul_mask x k)"
proof -
  have "length (mul_mask x k) = B" using assms by (simp add: mul_mask_def has_shape_iff)
  moreover have "\<forall>b<B. length (mul_mask x k ! b) = C \<and> (\<forall>c<C. length (mul_mask x k ! b ! c) = T)"
    using assms by (simp add: mul_mask_nth_batch [OF assms]) (simp add: has_shape_iff)
  ultimately show ?thesis by (simp add: has_shape_iff)
qed

lemma nth_mul_mask:
  "has_shape B C T x \<Longrightarrow> has_shape B (Suc 0) T k \<Longrightarrow> b < B \<Longrightarrow> c < C \<Longrightarrow> t < T \<Longrightarrow>
     mul_mask x k ! b ! c ! t = x ! b ! c ! t * k ! b ! 0 ! t"
  by (simp add: mul_mask_nth_batch) (simp add: has_shape_iff)

lemma has_shape_split:
  assumes "has_shape B (h + h) T x"
  shows "has_shape B h T (fst (torch_split x h))" and "has_shape B h T (snd (torch_split x h))"
  using assms by (simp_all add: has_shape_iff torch_split_def)

lemma nth_split_fst:
  "has_shape B (h + h) T x \<Longrightarrow> b < B \<Longrightarrow> c < h \<Longrightarrow>
     fst (torch_split x h) ! b ! c = x ! b ! c"
  by (simp add: has_shape_iff torch_split_def)

lemma nth_split_snd:
  "has_shape B (h + h) T x \<Longrightarrow> b < B \<Longrightarrow> c < h \<Longrightarrow>
     snd (torch_split x h) ! b ! c = x ! b ! (h + c)"
  by (simp add: has_shape_iff torch_split_def)

lemma has_shape_cat:
  "has_shape B h T x0 \<Longrightarrow> has_shape B h' T x1 \<Longrightarrow> has_shape B (h + h') T (torch_cat x0 x1)"
  by (auto simp add: has_shape_iff torch_cat_def nth_append)

lemma nth_cat:
  "has_shape B h T x0 \<Longrightarrow> has_shape B h' T x1 \<Longrightarrow> b < B \<Longrightarrow>
     torch_cat x0 x1 ! b ! c = (if c < h then x0 ! b ! c else x1 ! b ! (c - h))"
  by (simp add: has_shape_iff torch_cat_def nth_append)

lemma split_cat:
  assumes "has_shape B h T x0" "has_shape B h T x1"
  shows "torch_split (torch_cat x0 x1) h = (x0, x1)"
proof -
  have l: "length x0 = length x1" using assms by (simp add: has_shape_iff)
  have "\<forall>p \<in> set (zip x0 x1). length (fst p) = h \<and> length (snd p) = h"
    using assms by (auto simp: has_shape_def list_all_iff dest: set_zip_leftD set_zip_rightD)
  then have "map (take h) (map2 (@) x0 x1) = map fst (zip x0 x1)"
    and "map (\<lambda>xb. take h (drop h xb)) (map2 (@) x0 x1) = map snd (zip x0 x1)"
    by (auto simp: map_eq_conv)
  then show ?thesis using l by (simp add: torch_split_def torch_cat_def)
qed

lemma cat_split:
  assumes "has_shape B (h + h) T x"
  shows "torch_cat (fst (torch_split x h)) (snd (torch_split x h)) = x"
proof -
  have "\<forall>xb \<in> set x. take h xb @ take h (drop h xb) = xb"
    using assms by (auto simp: has_shape_def list_all_iff)
  then have "map (\<lambda>xb. take h xb @ take h (drop h xb)) x = x"
    by (simp add: map_idI)
  then show ?thesis
    by (simp add: torch_split_def torch_cat_def zip_map_map zip_same_conv_map o_def)
qed

lemma has_shape_flip: "has_shape B C T x \<Longrightarrow> has_shape B C T (torch_flip x)"
  by (simp add: has_shape_def torch_flip_def list_all_iff)

lemma flip_flip: "torch_flip (torch_flip x) = x"
  by (simp add: torch_flip_def o_def)

lemma transpose_rect:
  assumes "xb \<noteq> []" "\<forall>r \<in> set xb. length r = T"
  shows "transpose xb = map (\<lambda>t. map (\<lambda>r. r ! t) xb) [0..<T]"
proof -
  have "transpose xb = map (\<lambda>i. map (\<lambda>j. xb ! j ! i) [0..<length xb]) [0..<T]"
    using assms by (intro transpose_rectangle [of xb T]) simp_all
  moreover have "map (\<lambda>j. xb ! j ! i) [0..<length xb] = map (\<lambda>r. r ! i) xb" for i
    by (rule nth_equalityI) simp_all
  ultimately show ?thesis by simp
qed

lemma conv1d_nth_batch:
  assumes "conv_shape c_in c_out c" "has_shape B c_in T x" "0 < c_in" "b < B"
  shows "conv1d_forward c x ! b =
           map2 (\<lambda>w v. map (\<lambda>t. v + sum_list (map2 (*) w (map (\<lambda>r. r ! t) (x ! b)))) [0..<T])
             (weight c) (bias c)"
proof -
  have "x ! b \<noteq> []" using assms by (auto simp: has_shape_iff)
  moreover have "\<forall>r \<in> set (x ! b). length r = T"
    using assms by (auto simp: has_shape_iff in_set_conv_nth)
  ultimately have "transpose (x ! b) = map (\<lambda>t. map (\<lambda>r. r ! t) (x ! b)) [0..<T]"
    by (rule transpose_rect)
  moreover have "b < length x" using assms by (simp add: has_shape_iff)
  ultimately show ?thesis by (simp add: conv1d_forward_def o_def)
qed

lemma has_shape_conv1d:
  assumes "conv_shape c_in c_out c" "has_shape B c_in T x" "0 < c_in"
  shows "has_shape B c_out T (conv1d_forward c x)"
proof -
  have "length (conv1d_forward c x) = B" using assms by (simp add: conv1d_forward_def has_shape_iff)
  moreover have "\<forall>b<B. length (conv1d_forward c x ! b) = c_out \<and>
      (\<forall>c'<c_out. length (conv1d_forward c x ! b ! c') = T)"
    using assms by (simp add: conv1d_nth_batch [OF assms]) (simp add: conv_shape_def)
  ultimately show ?thesis by (simp add: has_shape_iff)
qed

lemma nth_conv1d:
  assumes "conv_shape c_in c_out c" "has_shape B c_in T x" "0 < c_in" "b < B" "c' < c_out" "t < T"
  shows "conv1d_forward c x ! b ! c' ! t =
           bias c ! c' + sum_list (map2 (*) (weight c ! c') (map (\<lambda>r. r ! t) (x ! b)))"
  using assms by (simp add: conv1d_nth_batch [OF assms(1-4)]) (simp add: conv_shape_def)

lemma sum_list_zero_weights:
  "\<forall>v \<in> set w. v = (0::real) \<Longrightarrow> sum_list (map2 (*) w col) = 0"
  by (induction w arbitrary: col) (auto simp: zip_Cons1 split: list.splits)

lemma nth_torch_sum:
  "has_shape B C T x \<Longrightarrow> b < B \<Longrightarrow> torch_sum x ! b = sum_list (map sum_list (x ! b))"
  by (simp add: torch_sum_def has_shape_iff)

lemma length_torch_sum: "length (torch_sum x) = length x"
  by (simp add: torch_sum_def)

section \<open>The coupling layer on well-shaped inputs\<close>

lemma wf_layer_dims:
  assumes "wf_layer l"
  shows "nat (layer.channels l) = nat (half_channels l) + nat (half_channels l)"
    and "0 < nat (half_channels l)" and "0 < nat (layer.hidden_channels l)"
  using assms by (simp_all add: wf_layer_def)

lemma hidden_shape:
  assumes wf: "wf_layer l" and x: "has_shape B (nat (layer.channels l)) T x"
    and k: "has_shape B (Suc 0) T k"
  shows "has_shape B (nat (layer.hidden_channels l)) T
           (enc l (mul_mask (conv1d_forward (pre l) (fst (torch_split x (nat (half_channels l))))) k) k g)"
proof -
  let ?h = "nat (half_channels l)" and ?H = "nat (layer.hidden_channels l)"
  have x0: "has_shape B ?h T (fst (torch_split x ?h))"
    using x wf_layer_dims(1) [OF wf] by (simp add: has_shape_split)
  have "has_shape B ?H T (conv1d_forward (pre l) (fst (torch_split x ?h)))"
    using wf x0 by (intro has_shape_conv1d [where c_in = ?h]) (simp_all add: wf_layer_def)
  then have "has_shape B ?H T (mul_mask (conv1d_forward (pre l) (fst (torch_split x ?h))) k)"
    using k by (rule has_shape_mul_mask)
  then show ?thesis using wf k by (simp add: wf_layer_def shape_preserving_def)
qed

lemma stats_shape:
  assumes wf: "wf_layer l" and x: "has_shape B (nat (layer.channels l)) T x"
    and k: "has_shape B (Suc 0) T k"
  shows "has_shape B (nat (half_channels l)) T (fst (coupling_stats l x k g))"
    and "has_shape B (nat (half_channels l)) T (snd (coupling_stats l x k g))"
proof -
  let ?h = "nat (half_channels l)" and ?H = "nat (layer.hidden_channels l)"
  let ?hid = "enc l (mul_mask (conv1d_forward (pre l) (fst (torch_split x ?h))) k) k g"
  let ?stats = "mul_mask (conv1d_forward (post l) ?hid) k"
  let ?c = "nat (half_channels l * (2 - (if mean_only l then 1 else 0)))"
  have "has_shape B ?c T (conv1d_forward (post l) ?hid)"
    using wf hidden_shape [OF wf x k]
    by (intro has_shape_conv1d [where c_in = ?H]) (simp_all add: wf_layer_def)
  then have st: "has_shape B ?c T ?stats" using k by (rule has_shape_mul_mask)
  have cs: "coupling_stats l x k g =
      (if \<not> mean_only l then torch_split ?stats ?h else (?stats, torch_zeros_like ?stats))"
    by (simp add: coupling_stats_def Let_def split: prod.splits)
  show "has_shape B ?h T (fst (coupling_stats l x k g))"
  proof (cases "mean_only l")
    case True
    then show ?thesis using st cs by simp
  next
    case False
    then have "?c = ?h + ?h" using wf by (simp add: wf_layer_def)
    then show ?thesis using st cs False by (simp add: has_shape_split)
  qed
  show "has_shape B ?h T (snd (coupling_stats l x k g))"
  proof (cases "mean_only l")
    case True
    then show ?thesis using st cs by (simp add: torch_zeros_like_def has_shape_tmap)
  next
    case False
    then have "?c = ?h + ?h" using wf by (simp add: wf_layer_def)
    then show ?thesis using st cs False by (simp add: has_shape_split)
  qed
qed

lemma layer_forward_False:
  "ResidualCouplingLayer_forward l x k g False =
     Fwd (torch_cat (fst (torch_split x (nat (half_channels l))))
            (torch_add (fst (coupling_stats l x k g))
               (mul_mask (torch_mul (snd (torch_split x (nat (half_channels l))))
                            (torch_exp (snd (coupling_stats l x k g)))) k)))
         (torch_sum (snd (coupling_stats l x k g)))"
  by (simp add: ResidualCouplingLayer_forward_def Let_def split: prod.splits)

lemma layer_forward_True:
  "ResidualCouplingLayer_forward l x k g True =
     Rev (torch_cat (fst (torch_split x (nat (half_channels l))))
            (mul_mask (torch_mul (torch_sub (snd (torch_split x (nat (half_channels l))))
                                    (fst (coupling_stats l x k g)))
                         (torch_exp (torch_neg (snd (coupling_stats l x k g))))) k))"
  by (simp add: ResidualCouplingLayer_forward_def Let_def split: prod.splits)

lemma coupling_stats_eq:
  "coupling_stats l x k g =
     (if \<not> mean_only l
      then torch_split (mul_mask (conv1d_forward (post l)
             (enc l (mul_mask (conv1d_forward (pre l) (fst (torch_split x (nat (half_channels l))))) k) k g)) k)
             (nat (half_channels l))
      else (mul_mask (conv1d_forward (post l)
             (enc l (mul_mask (conv1d_forward (pre l) (fst (torch_split x (nat (half_channels l))))) k) k g)) k,
            torch_zeros_like (mul_mask (conv1d_forward (post l)
             (enc l (mul_mask (conv1d_forward (pre l) (fst (torch_split x (nat (half_channels l))))) k) k g)) k)))"
  by (simp add: coupling_stats_def Let_def split: prod.splits)

lemma coupling_stats_cong:
  "fst (torch_split x (nat (half_channels l))) = fst (torch_split x' (nat (half_channels l))) \<Longrightarrow>
     coupling_stats l x k g = coupling_stats l x' k g"
  by (simp only: coupling_stats_eq)

lemma fwd_half_shape:
  assumes wf: "wf_layer l" and x: "has_shape B (nat (layer.channels l)) T x"
    and k: "has_shape B (Suc 0) T k"
  shows "has_shape B (nat (half_channels l)) T
           (torch_add (fst (coupling_stats l x k g))
              (mul_mask (torch_mul (snd (torch_split x (nat (half_channels l))))
                           (torch_exp (snd (coupling_stats l x k g)))) k))"
proof -
  let ?h = "nat (half_channels l)"
  have x1: "has_shape B ?h T (snd (torch_split x ?h))"
    using x wf_layer_dims(1) [OF wf] by (simp add: has_shape_split)
  note st = stats_shape [OF wf x k, of g]
  show ?thesis
    unfolding torch_add_def torch_mul_def torch_exp_def
    by (intro has_shape_tmap2 has_shape_mul_mask has_shape_tmap st x1 k)
qed

lemma rev_half_shape:
  assumes wf: "wf_layer l" and x: "has_shape B (nat (layer.channels l)) T x"
    and k: "has_shape B (Suc 0) T k"
  shows "has_shape B (nat (half_channels l)) T
           (mul_mask (torch_mul (torch_sub (snd (torch_split x (nat (half_channels l))))
                                   (fst (coupling_stats l x k g)))
                        (torch_exp (torch_neg (snd (coupling_stats l x k g))))) k)"
proof -
  let ?h = "nat (half_channels l)"
  have x1: "has_shape B ?h T (snd (torch_split x ?h))"
    using x wf_layer_dims(1) [OF wf] by (simp add: has_shape_split)
  note st = stats_shape [OF wf x k, of g]
  show ?thesis
    unfolding torch_sub_def torch_mul_def torch_exp_def torch_neg_def
    by (intro has_shape_tmap2 has_shape_mul_mask has_shape_tmap st x1 k)
qed

lemma x0_shape:
  assumes wf: "wf_layer l" and x: "has_shape B (nat (layer.channels l)) T x"
  shows "has_shape B (nat (half_channels l)) T (fst (torch_split x (nat (half_channels l))))"
    and "has_shape B (nat (half_channels l)) T (snd (torch_split x (nat (half_channels l))))"
  using x wf_layer_dims(1) [OF wf] by (simp_all add: has_shape_split)

lemma layer_out_shape:
  assumes wf: "wf_layer l" and x: "has_shape B (nat (layer.channels l)) T x"
    and k: "has_shape B (Suc 0) T k"
  shows "has_shape B (nat (layer.channels l)) T
           (out_tensor (ResidualCouplingLayer_forward l x k g reverse))"
proof (cases reverse)
  case True
  then show ?thesis
    using has_shape_cat [OF x0_shape(1) [OF wf x] rev_half_shape [OF wf x k, of g]]
    by (simp add: layer_forward_True wf_layer_dims(1) [OF wf])
next
  case False
  then show ?thesis
    using has_shape_cat [OF x0_shape(1) [OF wf x] fwd_half_shape [OF wf x k, of g]]
    by (simp add: layer_forward_False wf_layer_dims(1) [OF wf])
qed

lemma layer_out_split:
  assumes wf: "wf_layer l" and x: "has_shape B (nat (layer.channels l)) T x"
    and k: "has_shape B (Suc 0) T k"
  shows "torch_split (out_tensor (ResidualCouplingLayer_forward l x k g False)) (nat (half_channels l)) =
           (fst (torch_split x (nat (half_channels l))),
            torch_add (fst (coupling_stats l x k g))
              (mul_mask (torch_mul (snd (torch_split x (nat (half_channels l))))
                           (torch_exp (snd (coupling_stats l x k g)))) k))"
    and "torch_split (out_tensor (ResidualCouplingLayer_forward l x k g True)) (nat (half_channels l)) =
           (fst (torch_split x (nat (half_channels l))),
            mul_mask (torch_mul (torch_sub (snd (torch_split x (nat (half_channels l))))
                                   (fst (coupling_stats l x k g)))
                        (torch_exp (torch_neg (snd (coupling_stats l x k g))))) k)"
  using split_cat [OF x0_shape(1) [OF wf x] fwd_half_shape [OF wf x k, of g]]
    split_cat [OF x0_shape(1) [OF wf x] rev_half_shape [OF wf x k, of g]]
  by (simp_all add: layer_forward_True layer_forward_False)

lemma layer_pass_through:
  assumes wf: "wf_layer l" and x: "has_shape B (nat (layer.channels l)) T x"
    and k: "has_shape B (Suc 0) T k"
  shows "fst (torch_split (out_tensor (ResidualCouplingLayer_forward l x k g reverse)) (nat (half_channels l)))
           = fst (torch_split x (nat (half_channels l)))"
  using layer_out_split [OF wf x k, of g] by (cases reverse) simp_all

lemma stats_of_output:
  assumes wf: "wf_layer l" and x: "has_shape B (nat (layer.channels l)) T x"
    and k: "has_shape B (Suc 0) T k"
  shows "coupling_stats l (out_tensor (ResidualCouplingLayer_forward l x k g reverse)) k g' =
           coupling_stats l x k g'"
  by (rule coupling_stats_cong) (rule layer_pass_through [OF wf x k])

lemmas tensor_defs = torch_add_def torch_sub_def torch_mul_def torch_exp_def torch_neg_def
  torch_zeros_like_def

lemma has_shape_ops:
  "has_shape B C T x \<Longrightarrow> has_shape B C T y \<Longrightarrow> has_shape B C T (torch_add x y)"
  "has_shape B C T x \<Longrightarrow> has_shape B C T y \<Longrightarrow> has_shape B C T (torch_sub x y)"
  "has_shape B C T x \<Longrightarrow> has_shape B C T y \<Longrightarrow> has_shape B C T (torch_mul x y)"
  "has_shape B C T x \<Longrightarrow> has_shape B C T (torch_exp x)"
  "has_shape B C T x \<Longrightarrow> has_shape B C T (torch_neg x)"
  "has_shape B C T x \<Longrightarrow> has_shape B C T (torch_zeros_like x)"
  by (simp_all add: tensor_defs has_shape_tmap2 has_shape_tmap)

lemma nth_ops:
  assumes "b < B" "c < C" "t < T" "has_shape B C T x"
  shows "has_shape B C T y \<Longrightarrow> torch_add x y ! b ! c ! t = x ! b ! c ! t + y ! b ! c ! t"
    and "has_shape B C T y \<Longrightarrow> torch_sub x y ! b ! c ! t = x ! b ! c ! t - y ! b ! c ! t"
    and "has_shape B C T y \<Longrightarrow> torch_mul x y ! b ! c ! t = x ! b ! c ! t * y ! b ! c ! t"
    and "torch_exp x ! b ! c ! t = exp (x ! b ! c ! t)"
    and "torch_neg x ! b ! c ! t = - (x ! b ! c ! t)"
    and "torch_zeros_like x ! b ! c ! t = 0"
  using assms by (simp_all add: tensor_defs nth_tmap2 nth_tmap)

lemma affine_round_trip:
  assumes m: "has_shape B C T m" and l: "has_shape B C T logs" and x1: "has_shape B C T x1"
    and k: "has_shape B (Suc 0) T k"
  shows "mul_mask (torch_mul (torch_sub (torch_add m (mul_mask (torch_mul x1 (torch_exp logs)) k)) m)
                     (torch_exp (torch_neg logs))) k
         = mul_mask (mul_mask x1 k) k"
proof -
  note sh = has_shape_ops has_shape_mul_mask
  have s1: "has_shape B C T (torch_exp logs)"
    by (intro sh l)
  have s2: "has_shape B C T (torch_mul x1 (torch_exp logs))"
    by (intro sh x1 l)
  have s3: "has_shape B C T (mul_mask (torch_mul x1 (torch_exp logs)) k)"
    by (intro sh x1 l k)
  have s4: "has_shape B C T (torch_add m (mul_mask (torch_mul x1 (torch_exp logs)) k))"
    by (intro sh m x1 l k)
  have s5: "has_shape B C T (torch_sub (torch_add m (mul_mask (torch_mul x1 (torch_exp logs)) k)) m)"
    by (intro sh m x1 l k)
  have s6: "has_shape B C T (torch_neg logs)"
    by (intro sh l)
  have s7: "has_shape B C T (torch_exp (torch_neg logs))"
    by (intro sh l)
  have s8: "has_shape B C T (torch_mul (torch_sub (torch_add m
              (mul_mask (torch_mul x1 (torch_exp logs)) k)) m) (torch_exp (torch_neg logs)))"
    by (intro sh m x1 l k)
  have s9: "has_shape B C T (mul_mask x1 k)"
    by (intro sh x1 k)
  show ?thesis
  proof (rule tensor_eqI [where B = B and C = C and T = T])
    show "has_shape B C T (mul_mask (torch_mul (torch_sub (torch_add m
            (mul_mask (torch_mul x1 (torch_exp logs)) k)) m) (torch_exp (torch_neg logs))) k)"
      by (intro sh s8 k)
    show "has_shape B C T (mul_mask (mul_mask x1 k) k)"
      by (intro sh s9 k)
  next
    fix b c t assume i: "b < B" "c < C" "t < T"
    have "exp (logs ! b ! c ! t) * exp (- (logs ! b ! c ! t)) = 1"
      by (simp add: exp_minus field_simps)
    then have e: "a * exp (logs ! b ! c ! t) * v * exp (- (logs ! b ! c ! t)) = a * v" for a v :: real
      by (simp add: algebra_simps)
    have "mul_mask (torch_mul (torch_sub (torch_add m (mul_mask (torch_mul x1 (torch_exp logs)) k)) m)
                     (torch_exp (torch_neg logs))) k ! b ! c ! t
          = (m ! b ! c ! t + x1 ! b ! c ! t * exp (logs ! b ! c ! t) * k ! b ! 0 ! t - m ! b ! c ! t)
              * exp (- (logs ! b ! c ! t)) * k ! b ! 0 ! t"
      by (simp add: nth_mul_mask [OF s8 k i] nth_mul_mask [OF s2 k i]
          nth_ops(3) [OF i s5 s7] nth_ops(2) [OF i s4 m] nth_ops(1) [OF i m s3]
          nth_ops(3) [OF i x1 s1] nth_ops(4) [OF i s6] nth_ops(5) [OF i l] nth_ops(4) [OF i l])
    also have "\<dots> = x1 ! b ! c ! t * k ! b ! 0 ! t * k ! b ! 0 ! t"
      by (simp add: e)
    also have "\<dots> = mul_mask (mul_mask x1 k) k ! b ! c ! t"
      by (simp add: nth_mul_mask [OF s9 k i] nth_mul_mask [OF x1 k i])
    finally show "mul_mask (torch_mul (torch_sub (torch_add m (mul_mask (torch_mul x1 (torch_exp logs)) k)) m)
                     (torch_exp (torch_neg logs))) k ! b ! c ! t
         = mul_mask (mul_mask x1 k) k ! b ! c ! t" .
  qed
qed

lemma layer_round_trip:
  assumes wf: "wf_layer l" and x: "has_shape B (nat (layer.channels l)) T x"
    and k: "has_shape B (Suc 0) T k"
  shows "out_tensor (ResidualCouplingLayer_forward l
            (out_tensor (ResidualCouplingLayer_forward l x k g False)) k g True)
         = torch_cat (fst (torch_split x (nat (half_channels l))))
             (mul_mask (mul_mask (snd (torch_split x (nat (half_channels l)))) k) k)"
proof -
  let ?h = "nat (half_channels l)"
  let ?y = "out_tensor (ResidualCouplingLayer_forward l x k g False)"
  have st: "coupling_stats l ?y k g = coupling_stats l x k g"
    by (rule stats_of_output [OF wf x k])
  note sp = layer_out_split(1) [OF wf x k, of g]
  show ?thesis
    unfolding layer_forward_True [of l ?y] st sp out_tensor.simps fst_conv snd_conv
    by (simp only: affine_round_trip [OF stats_shape [OF wf x k] x0_shape(2) [OF wf x] k])
qed

lemma stats_entries:
  assumes wf: "wf_layer l" and x: "has_shape B (nat (layer.channels l)) T x"
    and k: "has_shape B (Suc 0) T k" and i: "b < B" "c < nat (half_channels l)" "t < T"
  shows "\<exists>p q. fst (coupling_stats l x k g) ! b ! c ! t = p * k ! b ! 0 ! t \<and>
               snd (coupling_stats l x k g) ! b ! c ! t = q * k ! b ! 0 ! t"
proof -
  let ?h = "nat (half_channels l)" and ?H = "nat (layer.hidden_channels l)"
  let ?hid = "enc l (mul_mask (conv1d_forward (pre l) (fst (torch_split x ?h))) k) k g"
  let ?P = "conv1d_forward (post l) ?hid"
  let ?c = "nat (half_channels l * (2 - (if mean_only l then 1 else 0)))"
  have P: "has_shape B ?c T ?P"
    using wf hidden_shape [OF wf x k]
    by (intro has_shape_conv1d [where c_in = ?H]) (simp_all add: wf_layer_def)
  have st: "has_shape B ?c T (mul_mask ?P k)" using P k by (rule has_shape_mul_mask)
  show ?thesis
  proof (cases "mean_only l")
    case True
    then have c: "?c = ?h" by simp
    have "fst (coupling_stats l x k g) ! b ! c ! t = ?P ! b ! c ! t * k ! b ! 0 ! t"
      using True i P k c by (simp add: coupling_stats_eq nth_mul_mask)
    moreover have "snd (coupling_stats l x k g) ! b ! c ! t = 0 * k ! b ! 0 ! t"
      using True i st c by (simp add: coupling_stats_eq torch_zeros_like_def nth_tmap)
    ultimately show ?thesis by blast
  next
    case False
    then have c: "?c = ?h + ?h" using wf by (simp add: wf_layer_def)
    have "fst (coupling_stats l x k g) ! b ! c ! t = ?P ! b ! c ! t * k ! b ! 0 ! t"
      using False i P k st c by (simp add: coupling_stats_eq nth_split_fst nth_mul_mask)
    moreover have "snd (coupling_stats l x k g) ! b ! c ! t = ?P ! b ! (?h + c) ! t * k ! b ! 0 ! t"
      using False i P k st c by (simp add: coupling_stats_eq nth_split_snd nth_mul_mask)
    ultimately show ?thesis by blast
  qed
qed

lemma stats_masked_zero:
  assumes wf: "wf_layer l" and x: "has_shape B (nat (layer.channels l)) T x"
    and k: "has_shape B (Suc 0) T k" and i: "b < B" "c < nat (half_channels l)" "t < T"
    and z: "k ! b ! 0 ! t = 0"
  shows "fst (coupling_stats l x k g) ! b ! c ! t = 0"
    and "snd (coupling_stats l x k g) ! b ! c ! t = 0"
  using stats_entries [OF wf x k i, of g] z by auto




lemma binary_maskD:
  assumes "binary_mask k" "has_shape B (Suc 0) T k" "b < B" "t < T"
  shows "k ! b ! 0 ! t = 0 \<or> k ! b ! 0 ! t = 1"
  using assms by (simp add: binary_mask_def has_shape_iff list_all_length)

lemma sum_list_rows:
  assumes "has_shape B C T x" "b < B"
  shows "sum_list (map sum_list (x ! b)) = (\<Sum>c<C. \<Sum>t<T. x ! b ! c ! t)"
proof -
  have "sum_list (map sum_list (x ! b)) = (\<Sum>c = 0..<C. sum_list (x ! b ! c))"
    using assms by (simp add: sum_list_sum_nth has_shape_iff)
  also have "\<dots> = (\<Sum>c = 0..<C. \<Sum>t = 0..<T. x ! b ! c ! t)"
    using assms by (intro sum.cong refl) (simp add: sum_list_sum_nth has_shape_iff)
  finally show ?thesis by (simp add: atLeast0LessThan)
qed

section \<open>The small layers evaluated\<close>

lemma wf_demo_layer: "wf_layer demo_layer"
  by (simp add: wf_layer_def demo_layer_def conv_shape_def shape_preserving_def)

lemma wf_demo_scale_layer: "wf_layer demo_scale_layer"
  by (simp add: wf_layer_def demo_scale_layer_def conv_shape_def shape_preserving_def)

lemma demo_shapes:
  "has_shape 1 (nat (layer.channels demo_layer)) 2 demo_x"
  "has_shape 1 (nat (layer.channels demo_scale_layer)) 2 demo_x"
  "has_shape 1 1 2 demo_mask" "binary_mask demo_mask"
  by (simp_all add: has_shape_def demo_x_def demo_mask_def demo_layer_def demo_scale_layer_def
      binary_mask_def)

lemma demo_scale_stats:
  "coupling_stats demo_scale_layer demo_x demo_mask None = ([[[3, 0]]], [[[1, 0]]])"
  by (simp add: coupling_stats_def demo_scale_layer_def demo_x_def demo_mask_def torch_split_def
      conv1d_forward_def mul_mask_def tensor_defs tmap_def)

lemma demo_scale_forward:
  "ResidualCouplingLayer_forward demo_scale_layer demo_x demo_mask None False =
     Fwd [[[1, 2], [3 + 3 * exp 1, 0]]] [1]"
  by (simp add: layer_forward_False demo_scale_stats)
     (simp add: demo_scale_layer_def demo_x_def demo_mask_def torch_split_def torch_cat_def
       mul_mask_def tensor_defs tmap_def tmap2_def torch_sum_def)

section \<open>The forward formula of the specification\<close>

lemma spec_forward_eq:
  "spec_coupling_forward l x k g =
     Fwd (torch_cat (fst (torch_split x (nat (half_channels l))))
            (mul_mask (torch_add (fst (coupling_stats l x k g))
               (torch_mul (snd (torch_split x (nat (half_channels l))))
                  (torch_exp (snd (coupling_stats l x k g))))) k))
         (torch_sum (snd (coupling_stats l x k g)))"
  by (simp add: spec_coupling_forward_def split: prod.splits)

lemma masked_affine_binary:
  assumes wf: "wf_layer l" and x: "has_shape B (nat (layer.channels l)) T x"
    and k: "has_shape B (Suc 0) T k" and bin: "binary_mask k"
  shows "mul_mask (torch_add (fst (coupling_stats l x k g))
               (torch_mul (snd (torch_split x (nat (half_channels l))))
                  (torch_exp (snd (coupling_stats l x k g))))) k
         = torch_add (fst (coupling_stats l x k g))
               (mul_mask (torch_mul (snd (torch_split x (nat (half_channels l))))
                  (torch_exp (snd (coupling_stats l x k g)))) k)"
proof -
  let ?h = "nat (half_channels l)"
  let ?X1 = "snd (torch_split x ?h)"
  let ?M = "fst (coupling_stats l x k g)" and ?L = "snd (coupling_stats l x k g)"
  note st = stats_shape [OF wf x k, of g]
  note x0 = x0_shape [OF wf x]
  have s1: "has_shape B ?h T (torch_exp ?L)" by (intro has_shape_ops st)
  have s2: "has_shape B ?h T (torch_mul ?X1 (torch_exp ?L))" by (intro has_shape_ops st x0)
  have s3: "has_shape B ?h T (mul_mask (torch_mul ?X1 (torch_exp ?L)) k)"
    by (intro has_shape_mul_mask s2 k)
  have s4: "has_shape B ?h T (torch_add ?M (torch_mul ?X1 (torch_exp ?L)))"
    by (intro has_shape_ops st s2)
  show ?thesis
  proof (rule tensor_eqI [where B = B and C = ?h and T = T])
    show "has_shape B ?h T (mul_mask (torch_add ?M (torch_mul ?X1 (torch_exp ?L))) k)"
      by (intro has_shape_mul_mask s4 k)
    show "has_shape B ?h T (torch_add ?M (mul_mask (torch_mul ?X1 (torch_exp ?L)) k))"
      by (intro has_shape_ops st s3)
  next
    fix b c t assume i: "b < B" "c < ?h" "t < T"
    obtain p where p: "?M ! b ! c ! t = p * k ! b ! 0 ! t"
      using stats_entries [OF wf x k i, of g] by blast
    have "k ! b ! 0 ! t = 0 \<or> k ! b ! 0 ! t = 1" using bin k i(1,3) by (rule binary_maskD)
    then have "?M ! b ! c ! t * k ! b ! 0 ! t = ?M ! b ! c ! t" using p by auto
    then show "mul_mask (torch_add ?M (torch_mul ?X1 (torch_exp ?L))) k ! b ! c ! t
        = torch_add ?M (mul_mask (torch_mul ?X1 (torch_exp ?L)) k) ! b ! c ! t"
      by (simp add: nth_mul_mask [OF s4 k i] nth_ops(1) [OF i st(1) s2]
          nth_ops(1) [OF i st(1) s3] nth_mul_mask [OF s2 k i] algebra_simps)
  qed
qed

section \<open>The constructors\<close>

lemma draws_length: "length (fst (draws rnd n s)) = n"
proof (induction n arbitrary: s)
  case 0
  then show ?case by simp
next
  case (Suc n)
  obtain v s1 where v: "rnd s = (v, s1)" by (cases "rnd s")
  obtain vs s2 where vs: "draws rnd n s1 = (vs, s2)" by (cases "draws rnd n s1")
  show ?case using Suc.IH [of s1] v vs by simp
qed

lemma draw_rows_length: "length (fst (draw_rows rnd k n s)) = k"
proof (induction k arbitrary: s)
  case 0
  then show ?case by simp
next
  case (Suc k)
  obtain r s1 where r: "draws rnd n s = (r, s1)" by (cases "draws rnd n s")
  obtain rs s2 where rs: "draw_rows rnd k n s1 = (rs, s2)" by (cases "draw_rows rnd k n s1")
  show ?case using Suc.IH [of s1] r rs by simp
qed

lemma draw_rows_row_length: "r \<in> set (fst (draw_rows rnd k n s)) \<Longrightarrow> length r = n"
proof (induction k arbitrary: s)
  case 0
  then show ?case by simp
next
  case (Suc k)
  obtain r0 s1 where d: "draws rnd n s = (r0, s1)" by (cases "draws rnd n s")
  obtain rs s2 where ds: "draw_rows rnd k n s1 = (rs, s2)" by (cases "draw_rows rnd k n s1")
  have "length r0 = n" using draws_length [of rnd n s] d by simp
  moreover have "r \<in> set rs \<Longrightarrow> length r = n" using Suc.IH [of s1] ds by simp
  ultimately show ?case using Suc.prems d ds by auto
qed

lemma nn_Conv1d_Inr:
  assumes "nn_Conv1d rnd c_in c_out s = Inr (c, s')"
  shows "0 \<le> c_in" and "0 \<le> c_out" and "conv_shape (nat c_in) (nat c_out) c"
proof -
  show a: "0 \<le> c_in" and b: "0 \<le> c_out"
    using assms by (auto simp: nn_Conv1d_def split: if_splits)
  obtain w s1 where w: "draw_rows rnd (nat c_out) (nat c_in) s = (w, s1)"
    by (cases "draw_rows rnd (nat c_out) (nat c_in) s")
  obtain v s2 where v: "draws rnd (nat c_out) s1 = (v, s2)"
    by (cases "draws rnd (nat c_out) s1")
  have c: "c = \<lparr>weight = w, bias = v\<rparr>" using assms a b w v by (simp add: nn_Conv1d_def)
  have "length w = nat c_out" using draw_rows_length [of rnd "nat c_out" "nat c_in" s] w by simp
  moreover have "\<forall>r \<in> set w. length r = nat c_in"
    using draw_rows_row_length [of _ rnd "nat c_out" "nat c_in" s] w by simp
  moreover have "length v = nat c_out" using draws_length [of rnd "nat c_out" s1] v by simp
  ultimately show "conv_shape (nat c_in) (nat c_out) c"
    by (simp add: conv_shape_def c list_all_iff)
qed

lemma nn_Conv1d_not_assertion: "nn_Conv1d rnd c_in c_out s \<noteq> Inl (AssertionError msg)"
  by (simp add: nn_Conv1d_def split: prod.splits)

lemma nn_Conv1d_succeeds:
  "0 \<le> c_in \<Longrightarrow> 0 \<le> c_out \<Longrightarrow> \<exists>c s'. nn_Conv1d rnd c_in c_out s = Inr (c, s')"
  by (simp add: nn_Conv1d_def split: prod.splits)

lemma conv_shape_zero:
  "conv_shape a b c \<Longrightarrow> conv_shape a b (bias_zero (weight_zero c))"
  by (simp add: conv_shape_def bias_zero_def weight_zero_def list_all_iff)

lemma zeroed_conv:
  "list_all (list_all (\<lambda>v. v = 0)) (weight (bias_zero (weight_zero c)))"
  "list_all (\<lambda>v. v = 0) (bias (bias_zero (weight_zero c)))"
  by (simp_all add: bias_zero_def weight_zero_def list_all_iff)

lemma layer_init_odd:
  "c mod 2 \<noteq> 0 \<Longrightarrow>
     ResidualCouplingLayer_init rnd W c hc ks dr nl pd gin mo s =
       Inl (AssertionError ''channels should be divisible by 2'')"
  by (simp add: ResidualCouplingLayer_init_def)

lemma layer_init_even_not_assertion:
  "c mod 2 = 0 \<Longrightarrow>
     ResidualCouplingLayer_init rnd W c hc ks dr nl pd gin mo s \<noteq> Inl (AssertionError msg)"
  by (auto simp add: ResidualCouplingLayer_init_def Let_def nn_Conv1d_not_assertion
      split: sum.splits option.splits prod.splits)

lemma layer_init_Inr:
  assumes "ResidualCouplingLayer_init rnd W c hc ks dr nl pd gin mo s = Inr (l, s')"
  shows "c mod 2 = 0" and "layer.channels l = c" and "layer.hidden_channels l = hc"
    and "layer.kernel_size l = ks" and "layer.dilation_rate l = dr" and "layer.n_layers l = nl"
    and "half_channels l = c div 2" and "mean_only l = mo"
    and "0 \<le> c div 2" and "0 \<le> hc"
    and "conv_shape (nat (c div 2)) (nat hc) (pre l)"
    and "conv_shape (nat hc) (nat (c div 2 * (2 - (if mo then 1 else 0)))) (post l)"
    and "list_all (list_all (\<lambda>v. v = 0)) (weight (post l))"
    and "list_all (\<lambda>v. v = 0) (bias (post l))"
proof -
  show ev: "c mod 2 = 0" using assms by (auto simp: ResidualCouplingLayer_init_def split: if_splits)
  obtain p s1 where p: "nn_Conv1d rnd (c div 2) hc s = Inr (p, s1)"
    using assms ev by (auto simp: ResidualCouplingLayer_init_def Let_def split: sum.splits)
  obtain e s2 where e: "W hc ks dr nl pd gin s1 = Some (e, s2)"
    using assms ev p by (auto simp: ResidualCouplingLayer_init_def Let_def split: option.splits)
  obtain q s3 where q: "nn_Conv1d rnd hc (c div 2 * (2 - (if mo then 1 else 0))) s2 = Inr (q, s3)"
    using assms ev p e by (auto simp: ResidualCouplingLayer_init_def Let_def split: sum.splits)
  have l: "l = \<lparr>layer.channels = c, hidden_channels = hc, kernel_size = ks, dilation_rate = dr,
      n_layers = nl, half_channels = c div 2, mean_only = mo, pre = p, enc = e,
      post = bias_zero (weight_zero q)\<rparr>"
    using assms ev p e q by (simp add: ResidualCouplingLayer_init_def Let_def)
  show "layer.channels l = c" "layer.hidden_channels l = hc" "layer.kernel_size l = ks"
    "layer.dilation_rate l = dr" "layer.n_layers l = nl" "half_channels l = c div 2"
    "mean_only l = mo"
    by (simp_all add: l)
  show "0 \<le> c div 2" "0 \<le> hc" using nn_Conv1d_Inr(1,2) [OF p] by simp_all
  show "conv_shape (nat (c div 2)) (nat hc) (pre l)" using nn_Conv1d_Inr(3) [OF p] by (simp add: l)
  show "conv_shape (nat hc) (nat (c div 2 * (2 - (if mo then 1 else 0)))) (post l)"
    using conv_shape_zero [OF nn_Conv1d_Inr(3) [OF q]] by (simp add: l)
  show "list_all (list_all (\<lambda>v. v = 0)) (weight (post l))" "list_all (\<lambda>v. v = 0) (bias (post l))"
    by (simp_all add: l zeroed_conv)
qed

lemma layer_init_succeeds:
  assumes "c mod 2 = 0" "0 \<le> c" "0 \<le> hc" "\<forall>s1. W hc ks dr nl pd gin s1 \<noteq> None"
  shows "\<exists>l s'. ResidualCouplingLayer_init rnd W c hc ks dr nl pd gin mo s = Inr (l, s')"
proof -
  obtain p s1 where p: "nn_Conv1d rnd (c div 2) hc s = Inr (p, s1)"
    using nn_Conv1d_succeeds [of "c div 2" hc rnd s] assms by auto
  obtain e s2 where e: "W hc ks dr nl pd gin s1 = Some (e, s2)"
    using assms(4) [rule_format, of s1] by (cases "W hc ks dr nl pd gin s1") auto
  obtain q s3 where q: "nn_Conv1d rnd hc (c div 2 * (2 - (if mo then 1 else 0))) s2 = Inr (q, s3)"
    using nn_Conv1d_succeeds [of hc "c div 2 * (2 - (if mo then 1 else 0))" rnd s2] assms by auto
  show ?thesis using assms(1) p e q by (simp add: ResidualCouplingLayer_init_def Let_def)
qed

lemma append_flows_Inr:
  assumes "append_flows rnd W c hc ks dr nl gin k fs s = Inr (fs', s')"
  shows "\<exists>ls. fs' = fs @ concat (map (\<lambda>l. [ResidualCouplingLayer l, Flip]) ls) \<and> length ls = k \<and>
           (\<forall>l \<in> set ls. \<exists>s1 s2.
              ResidualCouplingLayer_init rnd W c hc ks dr nl 0 gin True s1 = Inr (l, s2))"
  using assms
proof (induction k arbitrary: fs s)
  case 0
  then show ?case by simp
next
  case (Suc k)
  obtain l s1 where l: "ResidualCouplingLayer_init rnd W c hc ks dr nl 0 gin True s = Inr (l, s1)"
    using Suc.prems by (auto split: sum.splits)
  then have "append_flows rnd W c hc ks dr nl gin k (fs @ [ResidualCouplingLayer l] @ [Flip]) s1
      = Inr (fs', s')"
    using Suc.prems by simp
  from Suc.IH [OF this] obtain ls where
    ls: "fs' = (fs @ [ResidualCouplingLayer l] @ [Flip]) @
           concat (map (\<lambda>l. [ResidualCouplingLayer l, Flip]) ls)"
      "length ls = k"
      "\<forall>l \<in> set ls. \<exists>s1 s2.
         ResidualCouplingLayer_init rnd W c hc ks dr nl 0 gin True s1 = Inr (l, s2)"
    by blast
  show ?case
    by (rule exI [of _ "l # ls"]) (use l ls in auto)
qed

lemma append_flows_assertion:
  "append_flows rnd W c hc ks dr nl gin k fs s =
       Inl (AssertionError ''channels should be divisible by 2'')
     \<longleftrightarrow> c mod 2 \<noteq> 0 \<and> 0 < k"
proof (induction k arbitrary: fs s)
  case 0
  then show ?case by simp
next
  case (Suc k)
  show ?case
  proof (cases "c mod 2 = 0")
    case True
    then show ?thesis
      using Suc.IH layer_init_even_not_assertion [OF True, of rnd W hc ks dr nl 0 gin True s]
      by (auto split: sum.splits)
  next
    case False
    then show ?thesis by (simp add: layer_init_odd)
  qed
qed

lemma demo_layer_init:
  "ResidualCouplingLayer_init demo_rnd demo_WaveNet 2 1 3 1 2 0 0 True 0 =
     Inr (\<lparr>layer.channels = 2, hidden_channels = 1, kernel_size = 3, dilation_rate = 1,
            n_layers = 2, half_channels = 1, mean_only = True,
            pre = \<lparr>weight = [[1]], bias = [2]\<rparr>, enc = (\<lambda>h k g. h),
            post = \<lparr>weight = [[0]], bias = [0]\<rparr>\<rparr>, 4)"
  by (simp add: ResidualCouplingLayer_init_def nn_Conv1d_def demo_rnd_def demo_WaveNet_def
      weight_zero_def bias_zero_def)

section \<open>A layer whose post is zero\<close>

lemma has_shape_zeros: "has_shape B C T (replicate B (replicate C (replicate T 0)))"
  by (simp add: has_shape_def list_all_iff)

lemma has_shape_ones_mask: "has_shape B (Suc 0) T (replicate B [replicate T 1])"
  by (simp add: has_shape_def list_all_iff)

lemma zero_conv_entries:
  assumes cs: "conv_shape c_in c_out c" and x: "has_shape B c_in T x" and pos: "0 < c_in"
    and zw: "list_all (list_all (\<lambda>v. v = 0)) (weight c)" and zb: "list_all (\<lambda>v. v = 0) (bias c)"
    and i: "b < B" "c' < c_out" "t < T"
  shows "conv1d_forward c x ! b ! c' ! t = 0"
proof -
  have "bias c ! c' = 0" using zb cs i by (simp add: list_all_length conv_shape_def)
  moreover have "weight c ! c' \<in> set (weight c)" using cs i by (simp add: conv_shape_def)
  then have "\<forall>v \<in> set (weight c ! c'). v = 0"
    using zw by (simp add: list_all_iff)
  ultimately show ?thesis
    by (simp add: nth_conv1d [OF cs x pos i] sum_list_zero_weights)
qed

lemma zero_post_stats:
  assumes wf: "wf_layer l" and x: "has_shape B (nat (layer.channels l)) T x"
    and k: "has_shape B (Suc 0) T k" and mo: "mean_only l"
    and zw: "list_all (list_all (\<lambda>v. v = 0)) (weight (post l))"
    and zb: "list_all (\<lambda>v. v = 0) (bias (post l))"
  shows "coupling_stats l x k g =
           (replicate B (replicate (nat (half_channels l)) (replicate T 0)),
            replicate B (replicate (nat (half_channels l)) (replicate T 0)))"
proof -
  let ?h = "nat (half_channels l)" and ?H = "nat (layer.hidden_channels l)"
  let ?hid = "enc l (mul_mask (conv1d_forward (pre l) (fst (torch_split x ?h))) k) k g"
  let ?P = "conv1d_forward (post l) ?hid"
  let ?Z = "replicate B (replicate ?h (replicate T (0::real)))"
  have cs: "conv_shape ?H ?h (post l)" using wf mo by (simp add: wf_layer_def)
  have H: "0 < ?H" using wf by (simp add: wf_layer_def)
  note hid = hidden_shape [OF wf x k, of g]
  have P: "has_shape B ?h T ?P" using cs hid H by (rule has_shape_conv1d)
  have "mul_mask ?P k = ?Z"
  proof (rule tensor_eqI [where B = B and C = ?h and T = T])
    show "has_shape B ?h T (mul_mask ?P k)" using P k by (rule has_shape_mul_mask)
    show "has_shape B ?h T ?Z" by (rule has_shape_zeros)
  next
    fix b c t assume i: "b < B" "c < ?h" "t < T"
    show "mul_mask ?P k ! b ! c ! t = ?Z ! b ! c ! t"
      using i by (simp add: nth_mul_mask [OF P k i] zero_conv_entries [OF cs hid H zw zb i])
  qed
  then show ?thesis using mo by (simp add: coupling_stats_eq torch_zeros_like_def tmap_def)
qed

lemma zero_stats_affine:
  assumes x1: "has_shape B C T x1" and k: "has_shape B (Suc 0) T k"
  shows "torch_add (replicate B (replicate C (replicate T 0)))
           (mul_mask (torch_mul x1 (torch_exp (replicate B (replicate C (replicate T 0))))) k)
         = mul_mask x1 k"
proof -
  let ?Z = "replicate B (replicate C (replicate T (0::real)))"
  note z = has_shape_zeros [of B C T]
  have s1: "has_shape B C T (torch_exp ?Z)" by (intro has_shape_ops z)
  have s2: "has_shape B C T (torch_mul x1 (torch_exp ?Z))" by (intro has_shape_ops z x1)
  have s3: "has_shape B C T (mul_mask (torch_mul x1 (torch_exp ?Z)) k)"
    by (intro has_shape_mul_mask s2 k)
  show ?thesis
  proof (rule tensor_eqI [where B = B and C = C and T = T])
    show "has_shape B C T (torch_add ?Z (mul_mask (torch_mul x1 (torch_exp ?Z)) k))"
      by (intro has_shape_ops z s3)
    show "has_shape B C T (mul_mask x1 k)" by (intro has_shape_mul_mask x1 k)
  next
    fix b c t assume i: "b < B" "c < C" "t < T"
    show "torch_add ?Z (mul_mask (torch_mul x1 (torch_exp ?Z)) k) ! b ! c ! t
        = mul_mask x1 k ! b ! c ! t"
      using i by (simp add: nth_ops(1) [OF i z s3] nth_mul_mask [OF s2 k i]
          nth_ops(3) [OF i x1 s1] nth_ops(4) [OF i z] nth_mul_mask [OF x1 k i])
  qed
qed

lemma mul_ones_mask:
  assumes x: "has_shape B C T x"
  shows "mul_mask x (replicate B [replicate T 1]) = x"
proof (rule tensor_eqI [where B = B and C = C and T = T])
  show "has_shape B C T (mul_mask x (replicate B [replicate T 1]))"
    by (intro has_shape_mul_mask x has_shape_ones_mask)
  show "has_shape B C T x" by (rule x)
next
  fix b c t assume i: "b < B" "c < C" "t < T"
  show "mul_mask x (replicate B [replicate T 1]) ! b ! c ! t = x ! b ! c ! t"
    using i by (simp add: nth_mul_mask [OF x has_shape_ones_mask i])
qed

lemma torch_sum_zeros:
  "torch_sum (replicate B (replicate C (replicate T 0))) = replicate B 0"
  by (simp add: torch_sum_def sum_list_replicate)

lemma wf_layer_init:
  assumes i: "ResidualCouplingLayer_init rnd W c hc ks dr nl pd gin mo s = Inr (l, s')"
    and c: "0 < c" and hc: "0 < hc" and e: "shape_preserving (nat hc) (enc l)"
  shows "wf_layer l"
proof -
  note f = layer_init_Inr [OF i]
  have "2 * (c div 2) = c" using f(1) by presburger
  moreover from this c have "0 < c div 2" by linarith
  ultimately show ?thesis
    using f(2,3,7,8,11,12) hc e by (simp add: wf_layer_def)
qed

lemma demo_init_layer_forward:
  "ResidualCouplingLayer_forward demo_init_layer demo_x demo_mask None False =
     Fwd [[[1, 2], [3, 0]]] [0]"
  by (simp add: ResidualCouplingLayer_forward_def coupling_stats_def demo_init_layer_def demo_x_def
      demo_mask_def torch_split_def torch_cat_def conv1d_forward_def mul_mask_def tensor_defs
      tmap_def tmap2_def torch_sum_def)

section \<open>The loops of the block\<close>

lemma run_flows_append:
  "run_flows (fs @ fs') x k g r = run_flows fs' (run_flows fs x k g r) k g r"
  by (induction fs arbitrary: x) simp_all

lemma flow_call_forward_logdet:
  "\<exists>z logdet. flow_call f y k g False = Fwd z logdet"
  by (cases f) (simp_all add: layer_forward_False Flip_forward_def Let_def)

lemma block_init_flows:
  assumes "ResidualCouplingBlock_init rnd W c hc ks dr nl nf gin s = Inr (b, s')"
  shows "\<exists>ls. flows b = concat (map (\<lambda>l. [ResidualCouplingLayer l, Flip]) ls) \<and>
           length ls = nat nf \<and>
           (\<forall>l \<in> set ls. \<exists>s1 s2.
              ResidualCouplingLayer_init rnd W c hc ks dr nl 0 gin True s1 = Inr (l, s2))"
proof -
  obtain fs where fs: "append_flows rnd W c hc ks dr nl gin (nat nf) [] s = Inr (fs, s')"
    and b: "flows b = fs"
    using assms by (auto simp: ResidualCouplingBlock_init_def split: sum.splits)
  show ?thesis using append_flows_Inr [OF fs] b by simp
qed












section \<open>Masking and the operations\<close>

lemma mul_mask_entries:
  assumes "has_shape B C T x" "has_shape B C T y" "has_shape B (Suc 0) T k"
    and "mul_mask x k = mul_mask y k" and "b < B" "c < C" "t < T"
  shows "x ! b ! c ! t * k ! b ! 0 ! t = y ! b ! c ! t * k ! b ! 0 ! t"
proof -
  have "x ! b ! c ! t * k ! b ! 0 ! t = mul_mask x k ! b ! c ! t"
    by (simp only: nth_mul_mask [OF assms(1,3,5-7)])
  also have "\<dots> = mul_mask y k ! b ! c ! t" by (simp only: assms(4))
  also have "\<dots> = y ! b ! c ! t * k ! b ! 0 ! t"
    by (simp only: nth_mul_mask [OF assms(2,3,5-7)])
  finally show ?thesis .
qed

lemma mul_mask_eqI:
  assumes x: "has_shape B C T x" and y: "has_shape B C T y" and k: "has_shape B (Suc 0) T k"
    and e: "\<And>b c t. b < B \<Longrightarrow> c < C \<Longrightarrow> t < T \<Longrightarrow>
              x ! b ! c ! t * k ! b ! 0 ! t = y ! b ! c ! t * k ! b ! 0 ! t"
  shows "mul_mask x k = mul_mask y k"
proof (rule tensor_eqI [where B = B and C = C and T = T])
  show "has_shape B C T (mul_mask x k)" by (intro has_shape_mul_mask x k)
  show "has_shape B C T (mul_mask y k)" by (intro has_shape_mul_mask y k)
next
  fix b c t assume i: "b < B" "c < C" "t < T"
  show "mul_mask x k ! b ! c ! t = mul_mask y k ! b ! c ! t"
    using e [OF i] by (simp add: nth_mul_mask [OF x k i] nth_mul_mask [OF y k i])
qed

lemma mul_mask_idem:
  assumes x: "has_shape B C T x" and k: "has_shape B (Suc 0) T k" and bin: "binary_mask k"
  shows "mul_mask (mul_mask x k) k = mul_mask x k"
proof (rule mul_mask_eqI [OF has_shape_mul_mask [OF x k] x k])
  fix b c t assume i: "b < B" "c < C" "t < T"
  have "k ! b ! 0 ! t = 0 \<or> k ! b ! 0 ! t = 1" using bin k i(1,3) by (rule binary_maskD)
  then show "mul_mask x k ! b ! c ! t * k ! b ! 0 ! t = x ! b ! c ! t * k ! b ! 0 ! t"
    by (auto simp: nth_mul_mask [OF x k i])
qed

lemma cat_mul_mask:
  assumes a: "has_shape B h T a" and b: "has_shape B h' T b" and k: "has_shape B (Suc 0) T k"
  shows "mul_mask (torch_cat a b) k = torch_cat (mul_mask a k) (mul_mask b k)"
proof (rule tensor_eqI [where B = B and C = "h + h'" and T = T])
  note ab = has_shape_cat [OF a b]
  note ak = has_shape_mul_mask [OF a k] and bk = has_shape_mul_mask [OF b k]
  show "has_shape B (h + h') T (mul_mask (torch_cat a b) k)" by (intro has_shape_mul_mask ab k)
  show "has_shape B (h + h') T (torch_cat (mul_mask a k) (mul_mask b k))"
    by (intro has_shape_cat ak bk)
  fix i c t assume i: "i < B" "c < h + h'" "t < T"
  show "mul_mask (torch_cat a b) k ! i ! c ! t = torch_cat (mul_mask a k) (mul_mask b k) ! i ! c ! t"
  proof (cases "c < h")
    case True
    then show ?thesis
      using i by (simp add: nth_mul_mask [OF ab k i] nth_cat [OF a b i(1)] nth_cat [OF ak bk i(1)]
          nth_mul_mask [OF a k i(1) True i(3)])
  next
    case False
    then have c: "c - h < h'" using i by simp
    show ?thesis
      using i False by (simp add: nth_mul_mask [OF ab k i] nth_cat [OF a b i(1)]
          nth_cat [OF ak bk i(1)] nth_mul_mask [OF b k i(1) c i(3)])
  qed
qed

lemma split_mul_mask:
  assumes x: "has_shape B (h + h) T x" and k: "has_shape B (Suc 0) T k"
  shows "torch_split (mul_mask x k) h =
           (mul_mask (fst (torch_split x h)) k, mul_mask (snd (torch_split x h)) k)"
proof -
  note sp = has_shape_split [OF x]
  have "mul_mask x k = mul_mask (torch_cat (fst (torch_split x h)) (snd (torch_split x h))) k"
    by (simp add: cat_split [OF x])
  also have "\<dots> = torch_cat (mul_mask (fst (torch_split x h)) k) (mul_mask (snd (torch_split x h)) k)"
    by (rule cat_mul_mask [OF sp k])
  finally show ?thesis
    by (simp add: split_cat [OF has_shape_mul_mask [OF sp(1) k] has_shape_mul_mask [OF sp(2) k]])
qed

lemma nth_flip:
  assumes "has_shape B C T x" "b < B" "c < C"
  shows "torch_flip x ! b ! c = x ! b ! (C - Suc c)"
  using assms by (simp add: torch_flip_def has_shape_iff rev_nth)

lemma flip_mul_mask:
  assumes x: "has_shape B C T x" and k: "has_shape B (Suc 0) T k"
  shows "mul_mask (torch_flip x) k = torch_flip (mul_mask x k)"
proof (rule tensor_eqI [where B = B and C = C and T = T])
  note f = has_shape_flip [OF x] and xk = has_shape_mul_mask [OF x k]
  show "has_shape B C T (mul_mask (torch_flip x) k)" by (intro has_shape_mul_mask f k)
  show "has_shape B C T (torch_flip (mul_mask x k))" by (intro has_shape_flip xk)
  fix b c t assume i: "b < B" "c < C" "t < T"
  have c': "C - Suc c < C" using i by simp
  show "mul_mask (torch_flip x) k ! b ! c ! t = torch_flip (mul_mask x k) ! b ! c ! t"
    by (simp add: nth_mul_mask [OF f k i] nth_flip [OF x i(1,2)] nth_flip [OF xk i(1,2)]
        nth_mul_mask [OF x k i(1) c' i(3)])
qed

lemma mul_exp_mask_cong:
  assumes a: "has_shape B C T a" and a': "has_shape B C T a'" and e: "has_shape B C T e"
    and k: "has_shape B (Suc 0) T k" and eq: "mul_mask a k = mul_mask a' k"
  shows "mul_mask (torch_mul a e) k = mul_mask (torch_mul a' e) k"
proof (rule mul_mask_eqI [OF has_shape_ops(3) [OF a e] has_shape_ops(3) [OF a' e] k])
  fix b c t assume i: "b < B" "c < C" "t < T"
  have "a ! b ! c ! t * k ! b ! 0 ! t = a' ! b ! c ! t * k ! b ! 0 ! t"
    by (rule mul_mask_entries [OF a a' k eq i])
  then have "a ! b ! c ! t * e ! b ! c ! t * k ! b ! 0 ! t = a' ! b ! c ! t * e ! b ! c ! t * k ! b ! 0 ! t"
    by (metis mult.assoc mult.commute)
  then show "torch_mul a e ! b ! c ! t * k ! b ! 0 ! t = torch_mul a' e ! b ! c ! t * k ! b ! 0 ! t"
    by (simp add: nth_ops(3) [OF i a e] nth_ops(3) [OF i a' e])
qed

lemma sub_mask_cong:
  assumes a: "has_shape B C T a" and a': "has_shape B C T a'" and m: "has_shape B C T m"
    and k: "has_shape B (Suc 0) T k" and eq: "mul_mask a k = mul_mask a' k"
  shows "mul_mask (torch_sub a m) k = mul_mask (torch_sub a' m) k"
proof (rule mul_mask_eqI [OF has_shape_ops(2) [OF a m] has_shape_ops(2) [OF a' m] k])
  fix b c t assume i: "b < B" "c < C" "t < T"
  have "a ! b ! c ! t * k ! b ! 0 ! t = a' ! b ! c ! t * k ! b ! 0 ! t"
    by (rule mul_mask_entries [OF a a' k eq i])
  then show "torch_sub a m ! b ! c ! t * k ! b ! 0 ! t = torch_sub a' m ! b ! c ! t * k ! b ! 0 ! t"
    by (simp add: nth_ops(2) [OF i a m] nth_ops(2) [OF i a' m] algebra_simps)
qed

lemma sum_list_map2_scale:
  "sum_list (map2 (*) w col) * (v::real) = sum_list (map2 (*) w (map (\<lambda>u. u * v) col))"
  by (induction w arbitrary: col) (auto simp: zip_Cons1 algebra_simps split: list.splits)

lemma conv_mask_cong:
  assumes cs: "conv_shape c_in c_out c" and x: "has_shape B c_in T x" and x': "has_shape B c_in T x'"
    and pos: "0 < c_in" and k: "has_shape B (Suc 0) T k" and eq: "mul_mask x k = mul_mask x' k"
  shows "mul_mask (conv1d_forward c x) k = mul_mask (conv1d_forward c x') k"
proof (rule mul_mask_eqI [OF has_shape_conv1d [OF cs x pos] has_shape_conv1d [OF cs x' pos] k])
  fix b o' t assume i: "b < B" "o' < c_out" "t < T"
  let ?v = "k ! b ! 0 ! t"
  have "map (\<lambda>u. u * ?v) (map (\<lambda>r. r ! t) (x ! b)) = map (\<lambda>u. u * ?v) (map (\<lambda>r. r ! t) (x' ! b))"
  proof (rule nth_equalityI)
    show "length (map (\<lambda>u. u * ?v) (map (\<lambda>r. r ! t) (x ! b))) =
        length (map (\<lambda>u. u * ?v) (map (\<lambda>r. r ! t) (x' ! b)))"
      using x x' i by (simp add: has_shape_iff)
  next
    fix j assume "j < length (map (\<lambda>u. u * ?v) (map (\<lambda>r. r ! t) (x ! b)))"
    then have j: "j < c_in" using x i by (simp add: has_shape_iff)
    have "x ! b ! j ! t * ?v = x' ! b ! j ! t * ?v"
      by (rule mul_mask_entries [OF x x' k eq i(1) j i(3)])
    then show "map (\<lambda>u. u * ?v) (map (\<lambda>r. r ! t) (x ! b)) ! j =
        map (\<lambda>u. u * ?v) (map (\<lambda>r. r ! t) (x' ! b)) ! j"
      using x x' i j by (simp add: has_shape_iff)
  qed
  then have "sum_list (map2 (*) (weight c ! o') (map (\<lambda>r. r ! t) (x ! b))) * ?v =
      sum_list (map2 (*) (weight c ! o') (map (\<lambda>r. r ! t) (x' ! b))) * ?v"
    by (simp only: sum_list_map2_scale)
  then show "conv1d_forward c x ! b ! o' ! t * ?v = conv1d_forward c x' ! b ! o' ! t * ?v"
    by (simp add: nth_conv1d [OF cs x pos i] nth_conv1d [OF cs x' pos i] algebra_simps)
qed

lemma split_mask_cong:
  assumes x: "has_shape B (h + h) T x" and x': "has_shape B (h + h) T x'"
    and k: "has_shape B (Suc 0) T k" and eq: "mul_mask x k = mul_mask x' k"
  shows "mul_mask (fst (torch_split x h)) k = mul_mask (fst (torch_split x' h)) k"
    and "mul_mask (snd (torch_split x h)) k = mul_mask (snd (torch_split x' h)) k"
  using split_mul_mask [OF x k] split_mul_mask [OF x' k] eq by simp_all

lemma split_masked:
  assumes x: "has_shape B (h + h) T x" and k: "has_shape B (Suc 0) T k" and eq: "mul_mask x k = x"
  shows "mul_mask (fst (torch_split x h)) k = fst (torch_split x h)"
    and "mul_mask (snd (torch_split x h)) k = snd (torch_split x h)"
proof -
  have e: "torch_split x h =
      (mul_mask (fst (torch_split x h)) k, mul_mask (snd (torch_split x h)) k)"
    using split_mul_mask [OF x k] by (simp only: eq)
  show "mul_mask (fst (torch_split x h)) k = fst (torch_split x h)" by (metis e fst_conv)
  show "mul_mask (snd (torch_split x h)) k = snd (torch_split x h)" by (metis e snd_conv)
qed

lemma stats_mask_cong:
  assumes wf: "wf_layer l" and x: "has_shape B (nat (layer.channels l)) T x"
    and x': "has_shape B (nat (layer.channels l)) T x'"
    and k: "has_shape B (Suc 0) T k" and eq: "mul_mask x k = mul_mask x' k"
  shows "coupling_stats l x k g = coupling_stats l x' k g"
proof -
  let ?h = "nat (half_channels l)"
  have xs: "has_shape B (?h + ?h) T x" "has_shape B (?h + ?h) T x'"
    using x x' wf_layer_dims(1) [OF wf] by simp_all
  have cs: "conv_shape ?h (nat (layer.hidden_channels l)) (pre l)"
    using wf by (simp add: wf_layer_def)
  have "mul_mask (conv1d_forward (pre l) (fst (torch_split x ?h))) k =
      mul_mask (conv1d_forward (pre l) (fst (torch_split x' ?h))) k"
    by (rule conv_mask_cong [OF cs x0_shape(1) [OF wf x] x0_shape(1) [OF wf x']
          wf_layer_dims(2) [OF wf] k split_mask_cong(1) [OF xs k eq]])
  then show ?thesis by (simp only: coupling_stats_eq)
qed

lemma layer_mask_cong:
  assumes wf: "wf_layer l" and x: "has_shape B (nat (layer.channels l)) T x"
    and x': "has_shape B (nat (layer.channels l)) T x'"
    and k: "has_shape B (Suc 0) T k" and eq: "mul_mask x k = mul_mask x' k"
  shows "mul_mask (out_tensor (ResidualCouplingLayer_forward l x k g r)) k =
         mul_mask (out_tensor (ResidualCouplingLayer_forward l x' k g r)) k"
proof -
  let ?h = "nat (half_channels l)"
  let ?M = "fst (coupling_stats l x k g)" and ?L = "snd (coupling_stats l x k g)"
  have xs: "has_shape B (?h + ?h) T x" "has_shape B (?h + ?h) T x'"
    using x x' wf_layer_dims(1) [OF wf] by simp_all
  note st = stats_shape [OF wf x k, of g]
  note x0 = x0_shape [OF wf x] and x0' = x0_shape [OF wf x']
  note sc = stats_mask_cong [OF wf x x' k eq, of g]
  note sp = split_mask_cong [OF xs k eq]
  show ?thesis
  proof (cases r)
    case False
    have e: "has_shape B ?h T (torch_exp ?L)" by (intro has_shape_ops st)
    have y: "mul_mask (torch_mul (snd (torch_split x ?h)) (torch_exp ?L)) k =
        mul_mask (torch_mul (snd (torch_split x' ?h)) (torch_exp ?L)) k"
      by (rule mul_exp_mask_cong [OF x0(2) x0'(2) e k sp(2)])
    have o: "mul_mask (out_tensor (ResidualCouplingLayer_forward l x k g False)) k =
        torch_cat (mul_mask (fst (torch_split x ?h)) k)
          (mul_mask (torch_add ?M (mul_mask (torch_mul (snd (torch_split x ?h)) (torch_exp ?L)) k)) k)"
      by (simp add: layer_forward_False cat_mul_mask [OF x0(1) fwd_half_shape [OF wf x k] k])
    have fs': "has_shape B ?h T
        (torch_add ?M (mul_mask (torch_mul (snd (torch_split x' ?h)) (torch_exp ?L)) k))"
      using fwd_half_shape [OF wf x' k, of g] by (simp only: sc [symmetric])
    have o': "mul_mask (out_tensor (ResidualCouplingLayer_forward l x' k g False)) k =
        torch_cat (mul_mask (fst (torch_split x' ?h)) k)
          (mul_mask (torch_add ?M (mul_mask (torch_mul (snd (torch_split x' ?h)) (torch_exp ?L)) k)) k)"
      by (simp only: layer_forward_False sc [symmetric] out_tensor.simps
          cat_mul_mask [OF x0'(1) fs' k])
    show ?thesis using False o o' by (simp only: y sp(1))
  next
    case True
    have e: "has_shape B ?h T (torch_exp (torch_neg ?L))" by (intro has_shape_ops st)
    have s: "mul_mask (torch_sub (snd (torch_split x ?h)) ?M) k =
        mul_mask (torch_sub (snd (torch_split x' ?h)) ?M) k"
      by (rule sub_mask_cong [OF x0(2) x0'(2) st(1) k sp(2)])
    have y: "mul_mask (torch_mul (torch_sub (snd (torch_split x ?h)) ?M) (torch_exp (torch_neg ?L))) k =
        mul_mask (torch_mul (torch_sub (snd (torch_split x' ?h)) ?M) (torch_exp (torch_neg ?L))) k"
      by (rule mul_exp_mask_cong [OF has_shape_ops(2) [OF x0(2) st(1)]
            has_shape_ops(2) [OF x0'(2) st(1)] e k s])
    have o: "mul_mask (out_tensor (ResidualCouplingLayer_forward l x k g True)) k =
        torch_cat (mul_mask (fst (torch_split x ?h)) k)
          (mul_mask (mul_mask (torch_mul (torch_sub (snd (torch_split x ?h)) ?M)
             (torch_exp (torch_neg ?L))) k) k)"
      by (simp add: layer_forward_True cat_mul_mask [OF x0(1) rev_half_shape [OF wf x k] k])
    have rs': "has_shape B ?h T
        (mul_mask (torch_mul (torch_sub (snd (torch_split x' ?h)) ?M) (torch_exp (torch_neg ?L))) k)"
      using rev_half_shape [OF wf x' k, of g] by (simp only: sc [symmetric])
    have o': "mul_mask (out_tensor (ResidualCouplingLayer_forward l x' k g True)) k =
        torch_cat (mul_mask (fst (torch_split x' ?h)) k)
          (mul_mask (mul_mask (torch_mul (torch_sub (snd (torch_split x' ?h)) ?M)
             (torch_exp (torch_neg ?L))) k) k)"
      by (simp only: layer_forward_True sc [symmetric] out_tensor.simps
          cat_mul_mask [OF x0'(1) rs' k])
    show ?thesis using True o o' by (simp only: y sp(1))
  qed
qed

lemma fwd_half_masked:
  assumes wf: "wf_layer l" and x: "has_shape B (nat (layer.channels l)) T x"
    and k: "has_shape B (Suc 0) T k" and bin: "binary_mask k"
  shows "mul_mask (torch_add (fst (coupling_stats l x k g))
              (mul_mask (torch_mul (snd (torch_split x (nat (half_channels l))))
                           (torch_exp (snd (coupling_stats l x k g)))) k)) k
         = torch_add (fst (coupling_stats l x k g))
              (mul_mask (torch_mul (snd (torch_split x (nat (half_channels l))))
                           (torch_exp (snd (coupling_stats l x k g)))) k)"
proof -
  let ?h = "nat (half_channels l)"
  let ?M = "fst (coupling_stats l x k g)" and ?L = "snd (coupling_stats l x k g)"
  let ?A = "torch_mul (snd (torch_split x ?h)) (torch_exp ?L)"
  note st = stats_shape [OF wf x k, of g]
  note x0 = x0_shape [OF wf x]
  have a: "has_shape B ?h T ?A" by (intro has_shape_ops st x0)
  have ak: "has_shape B ?h T (mul_mask ?A k)" by (intro has_shape_mul_mask a k)
  note y = fwd_half_shape [OF wf x k, of g]
  show ?thesis
  proof (rule tensor_eqI [where B = B and C = ?h and T = T])
    show "has_shape B ?h T (mul_mask (torch_add ?M (mul_mask ?A k)) k)"
      by (intro has_shape_mul_mask y k)
    show "has_shape B ?h T (torch_add ?M (mul_mask ?A k))" by (rule y)
  next
    fix b c t assume i: "b < B" "c < ?h" "t < T"
    obtain p where p: "?M ! b ! c ! t = p * k ! b ! 0 ! t"
      using stats_entries [OF wf x k i, of g] by blast
    have "k ! b ! 0 ! t = 0 \<or> k ! b ! 0 ! t = 1" using bin k i(1,3) by (rule binary_maskD)
    then show "mul_mask (torch_add ?M (mul_mask ?A k)) k ! b ! c ! t =
        torch_add ?M (mul_mask ?A k) ! b ! c ! t"
      using p by (auto simp: nth_mul_mask [OF y k i] nth_ops(1) [OF i st(1) ak]
          nth_mul_mask [OF a k i])
  qed
qed

lemma layer_fwd_masked:
  assumes wf: "wf_layer l" and x: "has_shape B (nat (layer.channels l)) T x"
    and k: "has_shape B (Suc 0) T k" and bin: "binary_mask k" and m: "mul_mask x k = x"
  shows "mul_mask (out_tensor (ResidualCouplingLayer_forward l x k g False)) k =
         out_tensor (ResidualCouplingLayer_forward l x k g False)"
proof -
  let ?h = "nat (half_channels l)"
  have xs: "has_shape B (?h + ?h) T x" using x wf_layer_dims(1) [OF wf] by simp
  show ?thesis
    by (simp add: layer_forward_False
        cat_mul_mask [OF x0_shape(1) [OF wf x] fwd_half_shape [OF wf x k] k]
        fwd_half_masked [OF wf x k bin] split_masked(1) [OF xs k m])
qed

lemma layer_round_trip_masked:
  assumes wf: "wf_layer l" and x: "has_shape B (nat (layer.channels l)) T x"
    and k: "has_shape B (Suc 0) T k" and m: "mul_mask x k = x"
  shows "out_tensor (ResidualCouplingLayer_forward l
            (out_tensor (ResidualCouplingLayer_forward l x k g False)) k g True) = x"
proof -
  let ?h = "nat (half_channels l)"
  have xs: "has_shape B (?h + ?h) T x" using x wf_layer_dims(1) [OF wf] by simp
  show ?thesis
    by (simp add: layer_round_trip [OF wf x k] split_masked(2) [OF xs k m] cat_split [OF xs])
qed

section \<open>The stack forward and back\<close>

lemma flow_shape:
  assumes "wf_flow C f" "has_shape B (nat C) T x" "has_shape B (Suc 0) T k"
  shows "has_shape B (nat C) T (out_tensor (flow_call f x k g r))"
proof (cases f)
  case (ResidualCouplingLayer l)
  then show ?thesis using assms layer_out_shape [of l B T x k g r] by (auto simp: wf_flow_def)
next
  case Flip
  then show ?thesis using assms by (cases r) (simp_all add: Flip_forward_def Let_def has_shape_flip)
qed

lemma flow_fwd_masked:
  assumes "wf_flow C f" "has_shape B (nat C) T x" "has_shape B (Suc 0) T k" "binary_mask k"
    and "mul_mask x k = x"
  shows "mul_mask (out_tensor (flow_call f x k g False)) k = out_tensor (flow_call f x k g False)"
proof (cases f)
  case (ResidualCouplingLayer l)
  then show ?thesis using assms layer_fwd_masked [of l B T x k g] by (auto simp: wf_flow_def)
next
  case Flip
  then show ?thesis
    using assms flip_mul_mask [OF assms(2,3)] by (simp add: Flip_forward_def Let_def)
qed

lemma flow_round_trip_masked:
  assumes "wf_flow C f" "has_shape B (nat C) T x" "has_shape B (Suc 0) T k" "mul_mask x k = x"
  shows "out_tensor (flow_call f (out_tensor (flow_call f x k g False)) k g True) = x"
proof (cases f)
  case (ResidualCouplingLayer l)
  then show ?thesis using assms layer_round_trip_masked [of l B T x k g] by (auto simp: wf_flow_def)
next
  case Flip
  then show ?thesis by (simp add: Flip_forward_def Let_def flip_flip)
qed

lemma flow_mask_cong:
  assumes "wf_flow C f" "has_shape B (nat C) T x" "has_shape B (nat C) T x'"
    and "has_shape B (Suc 0) T k" "mul_mask x k = mul_mask x' k"
  shows "mul_mask (out_tensor (flow_call f x k g r)) k = mul_mask (out_tensor (flow_call f x' k g r)) k"
proof (cases f)
  case (ResidualCouplingLayer l)
  then show ?thesis using assms layer_mask_cong [of l B T x x' k g r] by (auto simp: wf_flow_def)
next
  case Flip
  then show ?thesis
    using assms flip_mul_mask [OF assms(2,4)] flip_mul_mask [OF assms(3,4)]
    by (cases r) (simp_all add: Flip_forward_def Let_def)
qed

lemma run_flows_shape:
  assumes "list_all (wf_flow C) fs" "has_shape B (nat C) T x" "has_shape B (Suc 0) T k"
  shows "has_shape B (nat C) T (run_flows fs x k g r)"
  using assms by (induction fs arbitrary: x) (simp_all add: flow_shape)

lemma run_flows_mask_cong:
  assumes "list_all (wf_flow C) fs" "has_shape B (nat C) T x" "has_shape B (nat C) T x'"
    and "has_shape B (Suc 0) T k" "mul_mask x k = mul_mask x' k"
  shows "mul_mask (run_flows fs x k g r) k = mul_mask (run_flows fs x' k g r) k"
  using assms
proof (induction fs arbitrary: x x')
  case Nil
  then show ?case by simp
next
  case (Cons f fs)
  have f: "wf_flow C f" and fs: "list_all (wf_flow C) fs" using Cons.prems(1) by simp_all
  show ?case
    using Cons.IH [OF fs flow_shape [OF f Cons.prems(2,4)] flow_shape [OF f Cons.prems(3,4)]
        Cons.prems(4) flow_mask_cong [OF f Cons.prems(2-5)]]
    by simp
qed

lemma run_flows_round_trip_masked:
  assumes "list_all (wf_flow C) fs" "has_shape B (nat C) T x" "has_shape B (Suc 0) T k"
    and "binary_mask k" "mul_mask x k = x"
  shows "run_flows (rev fs) (run_flows fs x k g False) k g True = x"
  using assms
proof (induction fs arbitrary: x)
  case Nil
  then show ?case by simp
next
  case (Cons f fs)
  have f: "wf_flow C f" and fs: "list_all (wf_flow C) fs" using Cons.prems(1) by simp_all
  let ?y = "out_tensor (flow_call f x k g False)"
  have "run_flows (rev fs) (run_flows fs ?y k g False) k g True = ?y"
    by (rule Cons.IH [OF fs flow_shape [OF f Cons.prems(2,3)] Cons.prems(3,4)
          flow_fwd_masked [OF f Cons.prems(2-5)]])
  then show ?case
    by (simp add: run_flows_append flow_round_trip_masked [OF f Cons.prems(2,3,5)])
qed

lemma wf_block_init:
  assumes i: "ResidualCouplingBlock_init rnd W c hc ks dr nl nf gin s = Inr (b, s')"
    and c: "0 < c" and hc: "0 < hc"
    and e: "\<forall>l. ResidualCouplingLayer l \<in> set (flows b) \<longrightarrow> shape_preserving (nat hc) (enc l)"
  shows "wf_block b"
proof -
  obtain ls where ls: "flows b = concat (map (\<lambda>l. [ResidualCouplingLayer l, Flip]) ls)"
    "\<forall>l \<in> set ls. \<exists>s1 s2.
        ResidualCouplingLayer_init rnd W c hc ks dr nl 0 gin True s1 = Inr (l, s2)"
    using block_init_flows [OF i] by blast
  have ch: "block.channels b = c"
    using i by (auto simp: ResidualCouplingBlock_init_def split: sum.splits)
  have "wf_flow c f" if "f \<in> set (flows b)" for f
  proof (cases f)
    case (ResidualCouplingLayer l)
    then have "l \<in> set ls" using that ls(1) by auto
    then obtain s1 s2 where
      li: "ResidualCouplingLayer_init rnd W c hc ks dr nl 0 gin True s1 = Inr (l, s2)"
      using ls(2) by blast
    have "shape_preserving (nat hc) (enc l)" using e that ResidualCouplingLayer by blast
    then show ?thesis
      using wf_layer_init [OF li c hc] layer_init_Inr(2) [OF li] ResidualCouplingLayer
      by (simp add: wf_flow_def)
  next
    case Flip
    then show ?thesis by (simp add: wf_flow_def)
  qed
  then show ?thesis by (simp add: wf_block_def ch list_all_iff)
qed

lemmas demo_eval = ResidualCouplingBlock_forward_def ResidualCouplingLayer_forward_def
  coupling_stats_def Flip_forward_def torch_flip_def torch_zeros_def
  demo_block_def demo_init_layer_def demo_x_def demo_mask_def
  torch_split_def torch_cat_def conv1d_forward_def mul_mask_def tensor_defs tmap_def tmap2_def
  torch_sum_def Let_def

lemma demo_round_trip_value:
  "ResidualCouplingBlock_forward demo_block
     (ResidualCouplingBlock_forward demo_block demo_x demo_mask None False) demo_mask None True
   = [[[1, 0], [3, 0]]]"
  by (simp add: demo_eval)

text \<open>
  In exact arithmetic, for a well-formed block, inputs of the documented shapes and a
  mask with values in \<open>{0, 1}\<close>: forward followed by reverse agrees with \<open>x\<close> at every
  time step where the mask is one, and is \<open>x\<close> itself when \<open>x\<close> is zero where the mask is
  zero. The entries of \<open>x\<close> at masked time steps are lost, as the small block shows. The
  numbers of the model are real numbers, so nothing here bounds the rounding error of
  the floating-point computation.
\<close>

lemma block_round_trip_exact:
  assumes "wf_block b" and "has_shape B (nat (block.channels b)) T x" and "has_shape B 1 T k"
    and "binary_mask k"
  shows "has_shape B (nat (block.channels b)) T
           (ResidualCouplingBlock_forward b (ResidualCouplingBlock_forward b x k g False) k g True) \<and>
         mul_mask (ResidualCouplingBlock_forward b
                     (ResidualCouplingBlock_forward b x k g False) k g True) k = mul_mask x k \<and>
         (mul_mask x k = x \<longrightarrow>
            ResidualCouplingBlock_forward b (ResidualCouplingBlock_forward b x k g False) k g True = x) \<and>
         (k = replicate B [replicate T 1] \<longrightarrow>
            ResidualCouplingBlock_forward b (ResidualCouplingBlock_forward b x k g False) k g True = x)"
proof -
  let ?C = "block.channels b"
  have k: "has_shape B (Suc 0) T k" using assms(3) by simp
  have wf: "list_all (wf_flow ?C) (flows b)" using assms(1) by (simp add: wf_block_def)
  then have wfr: "list_all (wf_flow ?C) (rev (flows b))" by simp
  note x = assms(2) and bin = assms(4)
  let ?x' = "mul_mask x k"
  let ?F = "\<lambda>z. run_flows (flows b) z k g False"
  let ?R = "\<lambda>z. run_flows (rev (flows b)) z k g True"
  have rt: "ResidualCouplingBlock_forward b (ResidualCouplingBlock_forward b x k g False) k g True
      = ?R (?F x)"
    by (simp add: ResidualCouplingBlock_forward_def)
  have x': "has_shape B (nat ?C) T ?x'" by (intro has_shape_mul_mask x k)
  have idem: "mul_mask ?x' k = ?x'" by (rule mul_mask_idem [OF x k bin])
  have sh: "has_shape B (nat ?C) T (?R (?F x))"
    by (intro run_flows_shape wfr wf x k)
  have "mul_mask (?F x) k = mul_mask (?F ?x') k"
    by (rule run_flows_mask_cong [OF wf x x' k idem [symmetric]])
  then have "mul_mask (?R (?F x)) k = mul_mask (?R (?F ?x')) k"
    by (rule run_flows_mask_cong [OF wfr run_flows_shape [OF wf x k] run_flows_shape [OF wf x' k] k])
  also have "?R (?F ?x') = ?x'"
    by (rule run_flows_round_trip_masked [OF wf x' k bin idem])
  finally have agree: "mul_mask (?R (?F x)) k = mul_mask x k" by (simp only: idem)
  have masked: "?R (?F x) = x" if "mul_mask x k = x"
    by (rule run_flows_round_trip_masked [OF wf x k bin that])
  have "mul_mask x k = x" if "k = replicate B [replicate T 1]"
    unfolding that by (rule mul_ones_mask [OF x])
  then have ones: "k = replicate B [replicate T 1] \<longrightarrow> ?R (?F x) = x"
    using masked by blast
  show ?thesis using sh agree masked ones by (simp only: rt) blast
qed

section \<open>The claims\<close>

text \<open>
  C2, amended. For a well-formed layer and inputs of the documented shapes, forward with
  \<open>reverse\<close> false returns \<open>concat(x0, x1')\<close> with \<open>x1' = m + x1 * exp(logs) * mask\<close>, where
  \<open>m\<close> and \<open>logs\<close> are computed from \<open>x0\<close> through \<open>pre\<close>, \<open>enc\<close> and \<open>post\<close> with the
  statistics multiplied by the mask, together with a log-determinant of length \<open>B\<close> whose
  entry \<open>b\<close> is the sum of \<open>logs\<close> over the channels and the time steps of batch element
  \<open>b\<close>. When the mask has values in \<open>{0, 1}\<close> this is the specification's
  \<open>x1' = (m + x1 * exp(logs)) * mask\<close>.
\<close>

theorem forward_postcondition:
  assumes "wf_layer l" and "has_shape B (nat (layer.channels l)) T x" and "has_shape B 1 T k"
  shows "ResidualCouplingLayer_forward l x k g False =
           Fwd (torch_cat (fst (torch_split x (nat (half_channels l))))
                  (torch_add (fst (coupling_stats l x k g))
                     (mul_mask (torch_mul (snd (torch_split x (nat (half_channels l))))
                                  (torch_exp (snd (coupling_stats l x k g)))) k)))
               (torch_sum (snd (coupling_stats l x k g))) \<and>
         length (torch_sum (snd (coupling_stats l x k g))) = B \<and>
         (\<forall>b<B. torch_sum (snd (coupling_stats l x k g)) ! b =
                   (\<Sum>c<nat (half_channels l). \<Sum>t<T. snd (coupling_stats l x k g) ! b ! c ! t)) \<and>
         (binary_mask k \<longrightarrow>
            ResidualCouplingLayer_forward l x k g False = spec_coupling_forward l x k g)"
proof -
  have k: "has_shape B (Suc 0) T k" using assms(3) by simp
  note wf = assms(1) and x = assms(2)
  note st = stats_shape [OF wf x k, of g]
  have "length (torch_sum (snd (coupling_stats l x k g))) = B"
    using st(2) by (simp add: length_torch_sum has_shape_iff)
  moreover have "\<forall>b<B. torch_sum (snd (coupling_stats l x k g)) ! b =
      (\<Sum>c<nat (half_channels l). \<Sum>t<T. snd (coupling_stats l x k g) ! b ! c ! t)"
    using st(2) by (simp add: nth_torch_sum sum_list_rows)
  moreover have "binary_mask k \<longrightarrow>
      ResidualCouplingLayer_forward l x k g False = spec_coupling_forward l x k g"
    by (simp add: layer_forward_False spec_forward_eq masked_affine_binary [OF wf x k])
  ultimately show ?thesis by (simp add: layer_forward_False)
qed

theorem forward_postcondition_witness:
  "wf_layer demo_scale_layer \<and> has_shape 1 (nat (layer.channels demo_scale_layer)) 2 demo_x \<and>
   has_shape 1 1 2 demo_mask \<and> binary_mask demo_mask \<and>
   ResidualCouplingLayer_forward demo_scale_layer demo_x demo_mask None False =
     spec_coupling_forward demo_scale_layer demo_x demo_mask None \<and>
   ResidualCouplingLayer_forward demo_scale_layer demo_x demo_mask None False =
     Fwd [[[1, 2], [3 + 3 * exp 1, 0]]] [1] \<and>
   torch_sum (snd (coupling_stats demo_scale_layer demo_x demo_mask None)) ! 0 =
     (\<Sum>c<nat (half_channels demo_scale_layer). \<Sum>t<2.
        snd (coupling_stats demo_scale_layer demo_x demo_mask None) ! 0 ! c ! t)"
proof -
  note h = wf_demo_scale_layer demo_shapes(2) demo_shapes(3)
  note th = forward_postcondition [OF h, of None]
  have a: "ResidualCouplingLayer_forward demo_scale_layer demo_x demo_mask None False =
      spec_coupling_forward demo_scale_layer demo_x demo_mask None"
    using th demo_shapes(4) by blast
  have "\<forall>b<1. torch_sum (snd (coupling_stats demo_scale_layer demo_x demo_mask None)) ! b =
     (\<Sum>c<nat (half_channels demo_scale_layer). \<Sum>t<2.
        snd (coupling_stats demo_scale_layer demo_x demo_mask None) ! b ! c ! t)"
    using th by blast
  then have b: "torch_sum (snd (coupling_stats demo_scale_layer demo_x demo_mask None)) ! 0 =
     (\<Sum>c<nat (half_channels demo_scale_layer). \<Sum>t<2.
        snd (coupling_stats demo_scale_layer demo_x demo_mask None) ! 0 ! c ! t)"
    by simp
  show ?thesis by (intro conjI h demo_shapes(4) a b demo_scale_forward)
qed

text \<open>
  C2 as stated fails for a mask that is not \<open>{0, 1}\<close>-valued: with both time steps
  attenuated by one half the layer returns \<open>[5/2, 7/2]\<close> as the second half, while
  \<open>(m + x1 * exp(logs)) * mask\<close> is \<open>[2, 11/4]\<close>.
\<close>

theorem forward_postcondition_counterexample:
  "wf_layer demo_layer \<and> has_shape 1 (nat (layer.channels demo_layer)) 2 demo_x \<and>
   has_shape 1 1 2 demo_half_mask \<and>
   coupling_stats demo_layer demo_x demo_half_mask None = ([[[1, 3 / 2]]], [[[0, 0]]]) \<and>
   ResidualCouplingLayer_forward demo_layer demo_x demo_half_mask None False =
     Fwd [[[1, 2], [5 / 2, 7 / 2]]] [0] \<and>
   mul_mask (torch_add [[[1, 3 / 2]]] (torch_mul [[[3, 4]]] (torch_exp [[[0, 0]]]))) demo_half_mask =
     [[[2, 11 / 4]]] \<and>
   ResidualCouplingLayer_forward demo_layer demo_x demo_half_mask None False \<noteq>
     Fwd (torch_cat [[[1, 2]]]
            (mul_mask (torch_add [[[1, 3 / 2]]] (torch_mul [[[3, 4]]] (torch_exp [[[0, 0]]])))
               demo_half_mask))
         (torch_sum [[[0, 0]]])"
proof -
  have st: "coupling_stats demo_layer demo_x demo_half_mask None = ([[[1, 3 / 2]]], [[[0, 0]]])"
    by (simp add: coupling_stats_def demo_layer_def demo_x_def demo_half_mask_def torch_split_def
        conv1d_forward_def mul_mask_def tensor_defs tmap_def)
  have fw: "ResidualCouplingLayer_forward demo_layer demo_x demo_half_mask None False =
      Fwd [[[1, 2], [5 / 2, 7 / 2]]] [0]"
    by (simp add: layer_forward_False st)
       (simp add: demo_layer_def demo_x_def demo_half_mask_def torch_split_def torch_cat_def
         mul_mask_def tensor_defs tmap_def tmap2_def torch_sum_def)
  have sp: "mul_mask (torch_add [[[1, 3 / 2]]] (torch_mul [[[3, 4]]] (torch_exp [[[0, 0]]])))
        demo_half_mask = [[[2, 11 / 4]]]"
    by (simp add: demo_half_mask_def mul_mask_def tensor_defs tmap_def tmap2_def)
  have sh: "has_shape 1 1 2 demo_half_mask" by (simp add: has_shape_def demo_half_mask_def)
  show ?thesis
    using wf_demo_layer demo_shapes(1) sh st fw sp by (simp add: torch_cat_def)
qed

text \<open>
  C3, amended. Right after construction a \<open>mean_only\<close> coupling layer has the weight and
  the bias of \<open>post\<close> zero, hence \<open>m = 0\<close> and \<open>logs = 0\<close>, and forward with \<open>reverse\<close> false
  returns \<open>(concat(x0, x1 * mask), zeros[B])\<close>, for every conditioning: the second half is
  multiplied by the mask. With a mask of ones this is \<open>(x, zeros[B])\<close>.
\<close>

theorem identity_at_zero_init:
  assumes "ResidualCouplingLayer_init rnd W c hc ks dr nl pd gin True s = Inr (l, s')"
    and "0 < c" and "0 < hc" and "shape_preserving (nat hc) (enc l)"
    and "has_shape B (nat c) T x" and "has_shape B 1 T k"
  shows "list_all (list_all (\<lambda>v. v = 0)) (weight (post l)) \<and>
         list_all (\<lambda>v. v = 0) (bias (post l)) \<and>
         coupling_stats l x k g =
           (replicate B (replicate (nat (half_channels l)) (replicate T 0)),
            replicate B (replicate (nat (half_channels l)) (replicate T 0))) \<and>
         ResidualCouplingLayer_forward l x k g False =
           Fwd (torch_cat (fst (torch_split x (nat (half_channels l))))
                  (mul_mask (snd (torch_split x (nat (half_channels l)))) k))
               (replicate B 0) \<and>
         (k = replicate B [replicate T 1] \<longrightarrow>
            ResidualCouplingLayer_forward l x k g False = Fwd x (replicate B 0))"
proof -
  let ?h = "nat (half_channels l)"
  note f = layer_init_Inr [OF assms(1)]
  have wf: "wf_layer l" using assms(1-4) by (rule wf_layer_init)
  have x: "has_shape B (nat (layer.channels l)) T x" using assms(5) f(2) by simp
  have k: "has_shape B (Suc 0) T k" using assms(6) by simp
  have st: "coupling_stats l x k g =
      (replicate B (replicate ?h (replicate T 0)), replicate B (replicate ?h (replicate T 0)))"
    using f(8) by (intro zero_post_stats wf x k f(13) f(14)) simp
  note x0 = x0_shape [OF wf x]
  have fw: "ResidualCouplingLayer_forward l x k g False =
      Fwd (torch_cat (fst (torch_split x ?h)) (mul_mask (snd (torch_split x ?h)) k)) (replicate B 0)"
    by (simp add: layer_forward_False st zero_stats_affine [OF x0(2) k] torch_sum_zeros)
  have "ResidualCouplingLayer_forward l x k g False = Fwd x (replicate B 0)"
    if "k = replicate B [replicate T 1]"
  proof -
    have xs: "has_shape B (?h + ?h) T x" using x wf_layer_dims(1) [OF wf] by simp
    have "mul_mask (snd (torch_split x ?h)) k = snd (torch_split x ?h)"
      unfolding that by (rule mul_ones_mask [OF x0(2)])
    then show ?thesis
      by (simp only: fw cat_split [OF xs])
  qed
  then show ?thesis using f(13) f(14) st fw by blast
qed

theorem identity_at_zero_init_witness:
  "ResidualCouplingLayer_init demo_rnd demo_WaveNet 2 1 3 1 2 0 0 True 0 = Inr (demo_init_layer, 4) \<and>
   shape_preserving (nat 1) (enc demo_init_layer) \<and>
   has_shape 1 (nat 2) 2 demo_x \<and> has_shape 1 1 2 demo_mask \<and> has_shape 1 1 2 [[[1, 1]]] \<and>
   weight (post demo_init_layer) = [[0]] \<and> bias (post demo_init_layer) = [0] \<and>
   coupling_stats demo_init_layer demo_x demo_mask None = ([[[0, 0]]], [[[0, 0]]]) \<and>
   ResidualCouplingLayer_forward demo_init_layer demo_x demo_mask None False =
     Fwd [[[1, 2], [3, 0]]] [0] \<and>
   ResidualCouplingLayer_forward demo_init_layer demo_x [[[1, 1]]] None False = Fwd demo_x [0]"
proof -
  have i: "ResidualCouplingLayer_init demo_rnd demo_WaveNet 2 1 3 1 2 0 0 True 0 =
      Inr (demo_init_layer, 4)"
    by (simp add: demo_layer_init demo_init_layer_def)
  have e: "shape_preserving (nat 1) (enc demo_init_layer)"
    by (simp add: shape_preserving_def demo_init_layer_def)
  have x: "has_shape 1 (nat 2) 2 demo_x" by (simp add: has_shape_def demo_x_def)
  have k1: "has_shape 1 1 2 [[[1, 1]]]" by (simp add: has_shape_def)
  have p: "(0::int) < 2" "(0::int) < 1" by simp_all
  have h: "nat (half_channels demo_init_layer) = 1" by (simp add: demo_init_layer_def)
  have r: "replicate 1 (replicate 1 (replicate 2 (0::real))) = [[[0, 0]]]"
    "replicate 1 [replicate 2 (1::real)] = [[[1, 1]]]" "replicate 1 (0::real) = [0]"
    by (simp_all add: numeral_2_eq_2)
  note t1 = identity_at_zero_init [OF i p e x demo_shapes(3), of None, unfolded h r]
  note t2 = identity_at_zero_init [OF i p e x k1, of None, unfolded h r]
  have a: "coupling_stats demo_init_layer demo_x demo_mask None = ([[[0, 0]]], [[[0, 0]]])"
    using t1 by blast
  have b: "ResidualCouplingLayer_forward demo_init_layer demo_x [[[1, 1]]] None False = Fwd demo_x [0]"
    using t2 by blast
  have w: "weight (post demo_init_layer) = [[0]]" "bias (post demo_init_layer) = [0]"
    by (simp_all add: demo_init_layer_def)
  show ?thesis by (intro conjI i e x demo_shapes(3) k1 w a b demo_init_layer_forward)
qed

text \<open>
  C3 as stated fails where the mask is zero: the freshly constructed layer maps the entry
  \<open>4\<close> of the second half, at the masked time step, to \<open>0\<close>.
\<close>

theorem identity_at_zero_init_counterexample:
  "ResidualCouplingLayer_init demo_rnd demo_WaveNet 2 1 3 1 2 0 0 True 0 = Inr (demo_init_layer, 4) \<and>
   has_shape 1 2 2 demo_x \<and> has_shape 1 1 2 demo_mask \<and>
   ResidualCouplingLayer_forward demo_init_layer demo_x demo_mask None False =
     Fwd [[[1, 2], [3, 0]]] [0] \<and>
   ResidualCouplingLayer_forward demo_init_layer demo_x demo_mask None False \<noteq> Fwd demo_x [0]"
proof -
  have i: "ResidualCouplingLayer_init demo_rnd demo_WaveNet 2 1 3 1 2 0 0 True 0 =
      Inr (demo_init_layer, 4)"
    by (simp add: demo_layer_init demo_init_layer_def)
  have x: "has_shape 1 2 2 demo_x" by (simp add: has_shape_def demo_x_def)
  have n: "ResidualCouplingLayer_forward demo_init_layer demo_x demo_mask None False \<noteq> Fwd demo_x [0]"
    unfolding demo_init_layer_forward by (simp add: demo_x_def)
  show ?thesis by (intro conjI i x demo_shapes(3) demo_init_layer_forward n)
qed



text \<open>
  C5. In both directions the first \<open>half_channels\<close> channels of the output of
  \<open>ResidualCouplingLayer.forward\<close> are the first \<open>half_channels\<close> channels of its input,
  unchanged: for a well-formed layer, \<open>x\<close> of shape \<open>[B, channels, T]\<close> and a mask of shape
  \<open>[B, 1, T]\<close>.
\<close>

theorem x0_pass_through:
  assumes "wf_layer l" and "has_shape B (nat (layer.channels l)) T x" and "has_shape B 1 T k"
  shows "map (take (nat (half_channels l)))
           (out_tensor (ResidualCouplingLayer_forward l x k g reverse))
         = map (take (nat (half_channels l))) x"
proof -
  have k: "has_shape B (Suc 0) T k" using assms(3) by simp
  show ?thesis
    using layer_pass_through [OF assms(1,2) k, of g reverse] by (simp add: torch_split_def)
qed

theorem x0_pass_through_witness:
  "wf_layer demo_layer \<and> has_shape 1 (nat (layer.channels demo_layer)) 2 demo_x \<and>
   has_shape 1 1 2 demo_mask \<and>
   map (take (nat (half_channels demo_layer)))
     (out_tensor (ResidualCouplingLayer_forward demo_layer demo_x demo_mask None False))
     = map (take (nat (half_channels demo_layer))) demo_x \<and>
   map (take (nat (half_channels demo_layer)))
     (out_tensor (ResidualCouplingLayer_forward demo_layer demo_x demo_mask None True))
     = map (take (nat (half_channels demo_layer))) demo_x \<and>
   map (take (nat (half_channels demo_layer))) demo_x = [[[1, 2]]]"
proof -
  note h = wf_demo_layer demo_shapes(1) demo_shapes(3)
  have "map (take (nat (half_channels demo_layer))) demo_x = [[[1, 2]]]"
    by (simp add: demo_layer_def demo_x_def)
  then show ?thesis
    using h x0_pass_through [OF h, of None False] x0_pass_through [OF h, of None True]
    by simp
qed

text \<open>
  C6. At every time step where the mask is zero the coupling layer has \<open>m = 0\<close> and
  \<open>logs = 0\<close> in every channel (the statistics are multiplied by the mask before they are
  split), so the log-determinant of a batch element is the sum of \<open>logs\<close> over the channels
  and over the time steps where the mask is not zero only. This holds for every mask of
  shape \<open>[B, 1, T]\<close>, the masks with values in \<open>{0, 1}\<close> among them.
\<close>

theorem logdet_mask_invariance:
  assumes "wf_layer l" and "has_shape B (nat (layer.channels l)) T x" and "has_shape B 1 T k"
    and "b < B"
  shows "(\<forall>c<nat (half_channels l). \<forall>t<T. k ! b ! 0 ! t = 0 \<longrightarrow>
            fst (coupling_stats l x k g) ! b ! c ! t = 0 \<and>
            snd (coupling_stats l x k g) ! b ! c ! t = 0) \<and>
         (case ResidualCouplingLayer_forward l x k g False of
            Fwd y logdet \<Rightarrow>
              logdet ! b = (\<Sum>c<nat (half_channels l). \<Sum>t\<in>{t. t < T \<and> k ! b ! 0 ! t \<noteq> 0}.
                              snd (coupling_stats l x k g) ! b ! c ! t)
          | Rev y \<Rightarrow> False)"
proof -
  let ?h = "nat (half_channels l)"
  let ?L = "snd (coupling_stats l x k g)"
  have k: "has_shape B (Suc 0) T k" using assms(3) by simp
  note wf = assms(1) and x = assms(2) and b = assms(4)
  have zero: "\<forall>c<?h. \<forall>t<T. k ! b ! 0 ! t = 0 \<longrightarrow>
      fst (coupling_stats l x k g) ! b ! c ! t = 0 \<and> ?L ! b ! c ! t = 0"
    using stats_masked_zero [OF wf x k b] by blast
  have "torch_sum ?L ! b = (\<Sum>c<?h. \<Sum>t<T. ?L ! b ! c ! t)"
    using stats_shape(2) [OF wf x k, of g] b by (simp add: nth_torch_sum sum_list_rows)
  also have "\<dots> = (\<Sum>c<?h. \<Sum>t\<in>{t. t < T \<and> k ! b ! 0 ! t \<noteq> 0}. ?L ! b ! c ! t)"
  proof (rule sum.cong [OF refl])
    fix c assume "c \<in> {..<?h}"
    then have c: "c < ?h" by simp
    show "(\<Sum>t<T. ?L ! b ! c ! t) = (\<Sum>t\<in>{t. t < T \<and> k ! b ! 0 ! t \<noteq> 0}. ?L ! b ! c ! t)"
      by (rule sum.mono_neutral_right) (use zero c in auto)
  qed
  finally have "torch_sum ?L ! b =
      (\<Sum>c<?h. \<Sum>t\<in>{t. t < T \<and> k ! b ! 0 ! t \<noteq> 0}. ?L ! b ! c ! t)" .
  then show ?thesis using zero by (simp add: layer_forward_False)
qed

theorem logdet_mask_invariance_witness:
  "wf_layer demo_scale_layer \<and> has_shape 1 (nat (layer.channels demo_scale_layer)) 2 demo_x \<and>
   has_shape 1 1 2 demo_mask \<and> demo_mask ! 0 ! 0 ! 1 = 0 \<and>
   fst (coupling_stats demo_scale_layer demo_x demo_mask None) ! 0 ! 0 ! 1 = 0 \<and>
   snd (coupling_stats demo_scale_layer demo_x demo_mask None) ! 0 ! 0 ! 1 = 0 \<and>
   snd (coupling_stats demo_scale_layer demo_x demo_mask None) ! 0 ! 0 ! 0 = 1 \<and>
   (case ResidualCouplingLayer_forward demo_scale_layer demo_x demo_mask None False of
      Fwd y logdet \<Rightarrow>
        logdet ! 0 = (\<Sum>c<nat (half_channels demo_scale_layer).
                        \<Sum>t\<in>{t. t < 2 \<and> demo_mask ! 0 ! 0 ! t \<noteq> 0}.
                          snd (coupling_stats demo_scale_layer demo_x demo_mask None) ! 0 ! c ! t)
    | Rev y \<Rightarrow> False)"
proof -
  note h = wf_demo_scale_layer demo_shapes(2) demo_shapes(3)
  have z: "demo_mask ! 0 ! 0 ! 1 = 0" by (simp add: demo_mask_def)
  have c: "0 < nat (half_channels demo_scale_layer)" by (simp add: demo_scale_layer_def)
  note th = logdet_mask_invariance [OF h, of 0 None, simplified]
  from th c z have "fst (coupling_stats demo_scale_layer demo_x demo_mask None) ! 0 ! 0 ! 1 = 0 \<and>
      snd (coupling_stats demo_scale_layer demo_x demo_mask None) ! 0 ! 0 ! 1 = 0"
    by simp
  moreover have "snd (coupling_stats demo_scale_layer demo_x demo_mask None) ! 0 ! 0 ! 0 = 1"
    by (simp add: demo_scale_stats)
  ultimately show ?thesis using h z th by simp
qed

text \<open>
  C7. \<open>Flip.forward\<close> reverses the order of the channel rows of every batch element, the
  same way in both directions. With \<open>reverse\<close> false it returns the flipped tensor with a
  log-determinant of \<open>B\<close> zeros, with \<open>reverse\<close> true the flipped tensor alone; the flip
  forward followed by the flip in reverse gives back \<open>x\<close>, for every \<open>x\<close>.
\<close>

theorem Flip_self_inverse:
  "Flip_forward x False = Fwd (map rev x) (replicate (length x) 0) \<and>
   Flip_forward x True = Rev (map rev x) \<and>
   out_tensor (Flip_forward (out_tensor (Flip_forward x False)) True) = x"
  by (simp add: Flip_forward_def Let_def torch_flip_def torch_zeros_def o_def)

theorem Flip_self_inverse_witness:
  "Flip_forward [[[1, 2], [3, 4], [5, 6]]] False = Fwd [[[5, 6], [3, 4], [1, 2]]] [0] \<and>
   Flip_forward [[[1, 2], [3, 4], [5, 6]]] True = Rev [[[5, 6], [3, 4], [1, 2]]] \<and>
   out_tensor (Flip_forward (out_tensor (Flip_forward [[[1, 2], [3, 4], [5, 6]]] False)) True) =
     [[[1, 2], [3, 4], [5, 6]]]"
proof -
  have e: "map rev [[[1, 2], [3, 4], [5, 6::real]]] = [[[5, 6], [3, 4], [1, 2]]]"
    "replicate (length [[[1, 2], [3, 4], [5, 6::real]]]) (0::real) = [0]"
    by simp_all
  show ?thesis
    by (rule Flip_self_inverse [of "[[[1, 2], [3, 4], [5, 6]]]", unfolded e])
qed

text \<open>
  C8, amended. Constructing a coupling layer fails with the assertion error (the
  specification's \<open>InvalidConfiguration\<close>) exactly when \<open>channels\<close> is not divisible by two.
  Constructing a block fails with it exactly when \<open>channels\<close> is not divisible by two and
  \<open>n_flows\<close> is at least one: a block without flows constructs no layer and checks nothing.
  For even \<open>channels\<close>, when the sizes are not negative and the \<open>WaveNet\<close> constructor
  succeeds, the layer's construction succeeds with \<open>half_channels = channels / 2\<close>.
\<close>

theorem construction_parity_check:
  "(ResidualCouplingLayer_init rnd W c hc ks dr nl pd gin mo s =
        Inl (AssertionError ''channels should be divisible by 2'')
      \<longleftrightarrow> c mod 2 \<noteq> 0) \<and>
   (ResidualCouplingBlock_init rnd W c hc ks dr nl nf gin s =
        Inl (AssertionError ''channels should be divisible by 2'')
      \<longleftrightarrow> c mod 2 \<noteq> 0 \<and> 0 < nf) \<and>
   (c mod 2 = 0 \<and> 0 \<le> c \<and> 0 \<le> hc \<and> (\<forall>s1. W hc ks dr nl pd gin s1 \<noteq> None) \<longrightarrow>
      (\<exists>l s'. ResidualCouplingLayer_init rnd W c hc ks dr nl pd gin mo s = Inr (l, s') \<and>
               half_channels l = c div 2 \<and> 2 * half_channels l = c))"
proof (intro conjI impI)
  show "ResidualCouplingLayer_init rnd W c hc ks dr nl pd gin mo s =
        Inl (AssertionError ''channels should be divisible by 2'') \<longleftrightarrow> c mod 2 \<noteq> 0"
    using layer_init_odd [of c rnd W hc ks dr nl pd gin mo s]
      layer_init_even_not_assertion [of c rnd W hc ks dr nl pd gin mo s]
    by (cases "c mod 2 = 0") simp_all
  have "ResidualCouplingBlock_init rnd W c hc ks dr nl nf gin s =
        Inl (AssertionError ''channels should be divisible by 2'')
      \<longleftrightarrow> append_flows rnd W c hc ks dr nl gin (nat nf) [] s =
        Inl (AssertionError ''channels should be divisible by 2'')"
    by (simp add: ResidualCouplingBlock_init_def split: sum.splits prod.splits)
  then show "ResidualCouplingBlock_init rnd W c hc ks dr nl nf gin s =
        Inl (AssertionError ''channels should be divisible by 2'')
      \<longleftrightarrow> c mod 2 \<noteq> 0 \<and> 0 < nf"
    by (simp add: append_flows_assertion)
next
  assume a: "c mod 2 = 0 \<and> 0 \<le> c \<and> 0 \<le> hc \<and> (\<forall>s1. W hc ks dr nl pd gin s1 \<noteq> None)"
  then have a1: "c mod 2 = 0" and a2: "0 \<le> c" and a3: "0 \<le> hc"
    and a4: "\<forall>s1. W hc ks dr nl pd gin s1 \<noteq> None"
    by simp_all
  obtain l s' where l: "ResidualCouplingLayer_init rnd W c hc ks dr nl pd gin mo s = Inr (l, s')"
    using layer_init_succeeds [of c hc W ks dr nl pd gin rnd mo s] a1 a2 a3 a4 by auto
  have "half_channels l = c div 2" by (rule layer_init_Inr(7) [OF l])
  moreover have "2 * (c div 2) = c" using a1 by presburger
  ultimately show "\<exists>l s'. ResidualCouplingLayer_init rnd W c hc ks dr nl pd gin mo s = Inr (l, s') \<and>
      half_channels l = c div 2 \<and> 2 * half_channels l = c"
    using l by auto
qed

theorem construction_parity_check_witness:
  "(ResidualCouplingLayer_init demo_rnd demo_WaveNet 3 1 3 1 2 0 0 True 0 =
        Inl (AssertionError ''channels should be divisible by 2'')) \<and>
   (ResidualCouplingBlock_init demo_rnd demo_WaveNet 3 1 3 1 2 4 0 0 =
        Inl (AssertionError ''channels should be divisible by 2'')) \<and>
   (\<exists>l s'. ResidualCouplingLayer_init demo_rnd demo_WaveNet 2 1 3 1 2 0 0 True 0 = Inr (l, s') \<and>
             half_channels l = 2 div 2 \<and> 2 * half_channels l = 2)"
proof -
  have w: "\<forall>s1. demo_WaveNet 1 3 1 2 0 0 s1 \<noteq> None" by (simp add: demo_WaveNet_def)
  note th3 = construction_parity_check [of demo_rnd demo_WaveNet 3 1 3 1 2 0 0 True 0 4]
  note th2 = construction_parity_check [of demo_rnd demo_WaveNet 2 1 3 1 2 0 0 True 0 4]
  have a: "ResidualCouplingLayer_init demo_rnd demo_WaveNet 3 1 3 1 2 0 0 True 0 =
        Inl (AssertionError ''channels should be divisible by 2'')"
    using th3 by simp
  have b: "ResidualCouplingBlock_init demo_rnd demo_WaveNet 3 1 3 1 2 4 0 0 =
        Inl (AssertionError ''channels should be divisible by 2'')"
    using th3 by simp
  have c: "\<exists>l s'. ResidualCouplingLayer_init demo_rnd demo_WaveNet 2 1 3 1 2 0 0 True 0 = Inr (l, s') \<and>
             half_channels l = 2 div 2 \<and> 2 * half_channels l = 2"
    using th2 w by simp
  show ?thesis by (intro conjI a b c)
qed

text \<open>
  C8 as stated fails for a block: with \<open>channels = 3\<close> and \<open>n_flows = 0\<close> the block is
  constructed, with an empty list of flows. And even \<open>channels\<close> do not make the
  construction succeed when they are negative: the allocation of \<open>pre\<close> is refused.
\<close>

theorem construction_parity_check_counterexample:
  "(3::int) mod 2 \<noteq> 0 \<and>
   ResidualCouplingBlock_init demo_rnd demo_WaveNet 3 1 3 1 2 0 0 0 =
     Inr (\<lparr>channels = 3, hidden_channels = 1, kernel_size = 3, dilation_rate = 1, n_layers = 2,
            n_flows = 0, gin_channels = 0, flows = []\<rparr>, 0) \<and>
   (-2::int) mod 2 = 0 \<and>
   ResidualCouplingLayer_init demo_rnd demo_WaveNet (-2) 1 3 1 2 0 0 True 0 = Inl RuntimeError"
  by (simp add: ResidualCouplingBlock_init_def ResidualCouplingLayer_init_def nn_Conv1d_def)



end
